theory Spec2Isabelle
  imports Main "HOL-Library.Word" "HOL-Library.Sublist"
begin

section \<open>cocli corim sign: a model of cmd/corimSign.go\<close>

text \<open>
  The command reads an unsigned CoRIM, a CoRIM Meta file and a JWK key, builds a
  \<open>corim.SignedCorim\<close>, optionally adds certificates, signs and writes the COSE Sign1
  bytes to a file.  Everything the Go function \<open>sign\<close> calls lives in other packages
  (afero, veraison/corim, go-cose); those calls are the fields of the record \<open>lib\<close> and
  every theorem holds for all of them.  The file system is the package variable \<open>fs\<close>
  (an \<open>afero.Fs\<close>), here a value of an arbitrary type \<open>'fs\<close> that is passed through the
  function and returned.  Each call into a library is logged, in order, in a list of
  events that is returned next to the result.
\<close>

subsection \<open>Data\<close>

type_synonym bytes = "8 word list"

text \<open>One event per call that leaves \<open>sign\<close> (and one for the struct literal).\<close>

datatype event =
    ReadFileCall string
  | FromCBORCall
  | CorimValidCall
  | FromJSONCall
  | MetaValidCall
  | NewSignerFromJWKCall
  | SignedCorimLit
  | AddSigningCertCall
  | AddIntermediateCertsCall
  | SignCall
  | WriteFileCall string bytes
  | PrintfCall string string

text \<open>
  \<open>corim.SignedCorim\<close>: the two fields the struct literal sets, and \<open>rest\<close> for the
  fields it leaves at their zero value (where the library keeps the certificates).
\<close>

record ('c, 'm, 'x) SignedCorim =
  UnsignedCorim :: 'c
  Meta :: 'm
  rest :: 'x

text \<open>
  The library calls.  A Go \<open>error\<close> of a library is its message (\<open>err.Error()\<close>);
  a call returning \<open>(v, err)\<close> is a sum, a call returning only \<open>err\<close> is an option
  (\<open>None\<close> is \<open>nil\<close>).  \<open>WriteFile\<close> returns the file system it leaves behind together
  with its error, so that a write that fails half way is not excluded.  \<open>Sign\<close> takes the
  state of the random source (\<open>'r\<close>) that a randomized signature scheme draws from.
\<close>

record ('fs, 'c, 'm, 'k, 'x, 'r) lib =
  ReadFile :: "'fs \<Rightarrow> string \<Rightarrow> string + bytes"
  WriteFile :: "'fs \<Rightarrow> string \<Rightarrow> bytes \<Rightarrow> 'fs \<times> string option"
  FromCBOR :: "bytes \<Rightarrow> string + 'c"
  CorimValid :: "'c \<Rightarrow> string option"
  FromJSON :: "bytes \<Rightarrow> string + 'm"
  MetaValid :: "'m \<Rightarrow> string option"
  NewSignerFromJWK :: "bytes \<Rightarrow> string + 'k"
  zeroValue :: 'x
  AddSigningCert :: "('c, 'm, 'x) SignedCorim \<Rightarrow> bytes \<Rightarrow> string + ('c, 'm, 'x) SignedCorim"
  AddIntermediateCerts :: "('c, 'm, 'x) SignedCorim \<Rightarrow> bytes \<Rightarrow> string + ('c, 'm, 'x) SignedCorim"
  Sign :: "('c, 'm, 'x) SignedCorim \<Rightarrow> 'k \<Rightarrow> 'r \<Rightarrow> string + bytes"

text \<open>
  The errors \<open>sign\<close> returns: one constructor per \<open>fmt.Errorf\<close> of the function, with the
  arguments of its format string (the path for \<open>%s\<close>, the wrapped error's message for
  \<open>%w\<close>).  \<open>Error\<close> is the message, as \<open>err.Error()\<close> prints it.
\<close>

datatype sign_error =
    ErrLoadCorim string string
  | ErrDecodeCorim string string
  | ErrValidCorim string
  | ErrLoadMeta string string
  | ErrDecodeMeta string string
  | ErrValidMeta string
  | ErrLoadKey string string
  | ErrNewSigner string string
  | ErrLoadCert string string
  | ErrAddCert string
  | ErrNoCert
  | ErrLoadIntermediates string string
  | ErrAddIntermediates string
  | ErrSign string
  | ErrSave string string

fun Error :: "sign_error \<Rightarrow> string" where
  "Error (ErrLoadCorim p c) = ''error loading unsigned CoRIM from '' @ p @ '': '' @ c"
| "Error (ErrDecodeCorim p c) = ''error decoding unsigned CoRIM from '' @ p @ '': '' @ c"
| "Error (ErrValidCorim c) = ''error validating CoRIM: '' @ c"
| "Error (ErrLoadMeta p c) = ''error loading CoRIM Meta from '' @ p @ '': '' @ c"
| "Error (ErrDecodeMeta p c) = ''error decoding CoRIM Meta from '' @ p @ '': '' @ c"
| "Error (ErrValidMeta c) = ''error validating CoRIM Meta: '' @ c"
| "Error (ErrLoadKey p c) = ''error loading signing key from '' @ p @ '': '' @ c"
| "Error (ErrNewSigner p c) = ''error loading signing key from '' @ p @ '': '' @ c"
| "Error (ErrLoadCert p c) = ''error loading signing certificate from '' @ p @ '': '' @ c"
| "Error (ErrAddCert c) = ''error adding signing certificate: '' @ c"
| "Error ErrNoCert = ''cannot add intermediate certificates without a signing certificate''"
| "Error (ErrLoadIntermediates p c) =
     ''error loading intermediate certificates from '' @ p @ '': '' @ c"
| "Error (ErrAddIntermediates c) = ''error adding intermediate certificates: '' @ c"
| "Error (ErrSign c) = ''error signing CoRIM: '' @ c"
| "Error (ErrSave p c) = ''error saving signed CoRIM to file '' @ p @ '': '' @ c"

subsection \<open>Sequencing\<close>

text \<open>
  An action takes the file system and returns its result (an error or a value), the file
  system afterwards and the calls it made.  \<open>andthen\<close> is Go's
  \<open>if err != nil { return "", err }\<close>: the first error ends the function.
\<close>

type_synonym ('fs, 'e, 'a) action = "'fs \<Rightarrow> ('e + 'a) \<times> 'fs \<times> event list"

definition ret :: "'a \<Rightarrow> ('fs, 'e, 'a) action" where
  "ret x = (\<lambda>f. (Inr x, f, []))"

definition fail :: "'e \<Rightarrow> ('fs, 'e, 'a) action" where
  "fail e = (\<lambda>f. (Inl e, f, []))"

definition andthen ::
  "('fs, 'e, 'a) action \<Rightarrow> ('a \<Rightarrow> ('fs, 'e, 'b) action) \<Rightarrow> ('fs, 'e, 'b) action" where
  "andthen m k = (\<lambda>f.
     case m f of
       (Inl e, f', t) \<Rightarrow> (Inl e, f', t)
     | (Inr x, f', t) \<Rightarrow> (case k x f' of (r, f'', t') \<Rightarrow> (r, f'', t @ t')))"

text \<open>A call that does not touch the file system: log it, wrap its error.\<close>

definition call :: "event \<Rightarrow> (string \<Rightarrow> 'e) \<Rightarrow> string + 'a \<Rightarrow> ('fs, 'e, 'a) action" where
  "call ev wrap r = (\<lambda>f. (case r of Inl msg \<Rightarrow> Inl (wrap msg) | Inr x \<Rightarrow> Inr x, f, [ev]))"

text \<open>A step of the function itself that cannot fail: log it, return the value.\<close>

definition note_step :: "event \<Rightarrow> 'a \<Rightarrow> ('fs, 'e, 'a) action" where
  "note_step ev x = (\<lambda>f. (Inr x, f, [ev]))"

definition check :: "string option \<Rightarrow> string + unit" where
  "check err = (case err of Some msg \<Rightarrow> Inl msg | None \<Rightarrow> Inr ())"

definition readFile ::
  "('fs, 'c, 'm, 'k, 'x, 'r) lib \<Rightarrow> string \<Rightarrow> (string \<Rightarrow> 'e) \<Rightarrow> ('fs, 'e, bytes) action" where
  "readFile L path wrap = (\<lambda>f. call (ReadFileCall path) wrap (ReadFile L f path) f)"

definition writeFile ::
  "('fs, 'c, 'm, 'k, 'x, 'r) lib \<Rightarrow> string \<Rightarrow> bytes \<Rightarrow> (string \<Rightarrow> 'e) \<Rightarrow> ('fs, 'e, unit) action"
  where
  "writeFile L path data wrap = (\<lambda>f.
     case WriteFile L f path data of
       (f', Some msg) \<Rightarrow> (Inl (wrap msg), f', [WriteFileCall path data])
     | (f', None) \<Rightarrow> (Inr (), f', [WriteFileCall path data]))"

subsection \<open>The command\<close>

text \<open>A \<open>*string\<close> is a \<open>string option\<close>; \<open>supplied p\<close> is \<open>p != nil && *p != ""\<close>.\<close>

definition supplied :: "string option \<Rightarrow> bool" where
  "supplied p = (case p of None \<Rightarrow> False | Some s \<Rightarrow> s \<noteq> [])"

text \<open>The package variables that hold the flags.\<close>

record flags =
  corimSignCorimFile :: "string option"
  corimSignKeyFile :: "string option"
  corimSignOutputFile :: "string option"
  corimSignMetaFile :: "string option"
  corimSignCertFile :: "string option"
  corimSignIntermediateCerts :: "string option"

definition checkCorimSignArgs :: "flags \<Rightarrow> string option" where
  "checkCorimSignArgs F =
     (if \<not> supplied (corimSignCorimFile F) then Some ''no CoRIM supplied''
      else if \<not> supplied (corimSignKeyFile F) then Some ''no key supplied''
      else if \<not> supplied (corimSignMetaFile F) then Some ''no CoRIM Meta supplied''
      else None)"

text \<open>The name of the file \<open>sign\<close> writes (lines 179 to 183).\<close>

definition signedCorimFile :: "string \<Rightarrow> string option \<Rightarrow> string" where
  "signedCorimFile unsignedCorimFile outputFile =
     (if \<not> supplied outputFile then ''signed-'' @ unsignedCorimFile else the outputFile)"

definition sign ::
  "('fs, 'c, 'm, 'k, 'x, 'r) lib \<Rightarrow> 'r \<Rightarrow> string \<Rightarrow> string \<Rightarrow> string \<Rightarrow>
   string option \<Rightarrow> string option \<Rightarrow> string option \<Rightarrow> ('fs, sign_error, string) action" where
  "sign L rnd unsignedCorimFile keyFile metaFile outputFile certFile intermediatesFile =
     andthen (readFile L unsignedCorimFile (ErrLoadCorim unsignedCorimFile)) (\<lambda>unsignedCorimCBOR.
     andthen (call FromCBORCall (ErrDecodeCorim unsignedCorimFile) (FromCBOR L unsignedCorimCBOR)) (\<lambda>c.
     andthen (call CorimValidCall ErrValidCorim (check (CorimValid L c))) (\<lambda>_.
     andthen (readFile L metaFile (ErrLoadMeta metaFile)) (\<lambda>metaJSON.
     andthen (call FromJSONCall (ErrDecodeMeta metaFile) (FromJSON L metaJSON)) (\<lambda>m.
     andthen (call MetaValidCall ErrValidMeta (check (MetaValid L m))) (\<lambda>_.
     andthen (readFile L keyFile (ErrLoadKey keyFile)) (\<lambda>keyJWK.
     andthen (call NewSignerFromJWKCall (ErrNewSigner keyFile) (NewSignerFromJWK L keyJWK)) (\<lambda>signer.
     andthen (note_step SignedCorimLit
                \<lparr>UnsignedCorim = c, Meta = m, rest = zeroValue L\<rparr>) (\<lambda>s.
     andthen (if supplied certFile then
                andthen (readFile L (the certFile) (ErrLoadCert (the certFile))) (\<lambda>certDER.
                call AddSigningCertCall ErrAddCert (AddSigningCert L s certDER))
              else ret s) (\<lambda>s.
     andthen (if supplied intermediatesFile then
                if \<not> supplied certFile then fail ErrNoCert
                else
                  andthen (readFile L (the intermediatesFile)
                             (ErrLoadIntermediates (the intermediatesFile))) (\<lambda>intermediatesDER.
                  call AddIntermediateCertsCall ErrAddIntermediates
                    (AddIntermediateCerts L s intermediatesDER))
              else ret s) (\<lambda>s.
     andthen (call SignCall ErrSign (Sign L s signer rnd)) (\<lambda>signedCorimCBOR.
     andthen (writeFile L (signedCorimFile unsignedCorimFile outputFile) signedCorimCBOR
                (ErrSave (signedCorimFile unsignedCorimFile outputFile))) (\<lambda>_.
     ret (signedCorimFile unsignedCorimFile outputFile))))))))))))))"

text \<open>
  \<open>RunE\<close> of the cobra command: check the flags, sign, print.  Its error is the message
  of the error it returns.
\<close>

definition RunE ::
  "('fs, 'c, 'm, 'k, 'x, 'r) lib \<Rightarrow> 'r \<Rightarrow> flags \<Rightarrow> ('fs, string, unit) action" where
  "RunE L rnd F =
     (case checkCorimSignArgs F of
        Some err \<Rightarrow> fail err
      | None \<Rightarrow>
          andthen (\<lambda>f. case sign L rnd (the (corimSignCorimFile F)) (the (corimSignKeyFile F))
                               (the (corimSignMetaFile F)) (corimSignOutputFile F)
                               (corimSignCertFile F) (corimSignIntermediateCerts F) f of
                          (Inl e, f', t) \<Rightarrow> (Inl (Error e), f', t)
                        | (Inr coseFile, f', t) \<Rightarrow> (Inr coseFile, f', t)) (\<lambda>coseFile.
          note_step (PrintfCall (the (corimSignCorimFile F)) coseFile) ()))"

subsection \<open>The calls of a run, and its stages\<close>

text \<open>
  The calls \<open>sign\<close> makes until the \<open>SignedCorim\<close> is built (lines 110 to 145), for a
  certificate (lines 148 to 156) and for the intermediate certificates (lines 159 to 172).
\<close>

definition loadCalls :: "string \<Rightarrow> string \<Rightarrow> string \<Rightarrow> event list" where
  "loadCalls cf mf kf =
     [ReadFileCall cf, FromCBORCall, CorimValidCall,
      ReadFileCall mf, FromJSONCall, MetaValidCall,
      ReadFileCall kf, NewSignerFromJWKCall, SignedCorimLit]"

definition certCalls :: "string option \<Rightarrow> event list" where
  "certCalls cert = (if supplied cert then [ReadFileCall (the cert), AddSigningCertCall] else [])"

definition intsCalls :: "string option \<Rightarrow> event list" where
  "intsCalls ints =
     (if supplied ints then [ReadFileCall (the ints), AddIntermediateCertsCall] else [])"

text \<open>
  Lines 110 to 140 as a function of the file system: the manifest, the metadata and the
  signer, or the error together with the number of calls made.
\<close>

definition loadInputs ::
  "('fs, 'c, 'm, 'k, 'x, 'r) lib \<Rightarrow> 'fs \<Rightarrow> string \<Rightarrow> string \<Rightarrow> string \<Rightarrow>
   (sign_error \<times> nat) + ('c \<times> 'm \<times> 'k)" where
  "loadInputs L f cf kf mf =
     (case ReadFile L f cf of Inl msg \<Rightarrow> Inl (ErrLoadCorim cf msg, 1) | Inr b \<Rightarrow>
     (case FromCBOR L b of Inl msg \<Rightarrow> Inl (ErrDecodeCorim cf msg, 2) | Inr c \<Rightarrow>
     (case CorimValid L c of Some msg \<Rightarrow> Inl (ErrValidCorim msg, 3) | None \<Rightarrow>
     (case ReadFile L f mf of Inl msg \<Rightarrow> Inl (ErrLoadMeta mf msg, 4) | Inr j \<Rightarrow>
     (case FromJSON L j of Inl msg \<Rightarrow> Inl (ErrDecodeMeta mf msg, 5) | Inr m \<Rightarrow>
     (case MetaValid L m of Some msg \<Rightarrow> Inl (ErrValidMeta msg, 6) | None \<Rightarrow>
     (case ReadFile L f kf of Inl msg \<Rightarrow> Inl (ErrLoadKey kf msg, 7) | Inr w \<Rightarrow>
     (case NewSignerFromJWK L w of Inl msg \<Rightarrow> Inl (ErrNewSigner kf msg, 8) | Inr k \<Rightarrow>
      Inr (c, m, k)))))))))"

text \<open>Lines 148 to 172: the \<open>SignedCorim\<close> with its certificates, or the error and the calls.\<close>

definition addCerts ::
  "('fs, 'c, 'm, 'k, 'x, 'r) lib \<Rightarrow> 'fs \<Rightarrow> ('c, 'm, 'x) SignedCorim \<Rightarrow> string option \<Rightarrow>
   string option \<Rightarrow> (sign_error \<times> event list) + ('c, 'm, 'x) SignedCorim" where
  "addCerts L f s cert ints =
     (case (if supplied cert then
              (case ReadFile L f (the cert) of
                 Inl msg \<Rightarrow> Inl (ErrLoadCert (the cert) msg, [ReadFileCall (the cert)])
               | Inr der \<Rightarrow>
                  (case AddSigningCert L s der of
                     Inl msg \<Rightarrow> Inl (ErrAddCert msg, certCalls cert)
                   | Inr s1 \<Rightarrow> Inr s1))
            else Inr s) of
        Inl x \<Rightarrow> Inl x
      | Inr s1 \<Rightarrow>
          if supplied ints then
            if \<not> supplied cert then Inl (ErrNoCert, [])
            else
              (case ReadFile L f (the ints) of
                 Inl msg \<Rightarrow> Inl (ErrLoadIntermediates (the ints) msg,
                                 certCalls cert @ [ReadFileCall (the ints)])
               | Inr ider \<Rightarrow>
                  (case AddIntermediateCerts L s1 ider of
                     Inl msg \<Rightarrow> Inl (ErrAddIntermediates msg, certCalls cert @ intsCalls ints)
                   | Inr s2 \<Rightarrow> Inr s2))
          else Inr s1)"

text \<open>The writes among the calls of a run: the name and the contents of each.\<close>

fun writes :: "event list \<Rightarrow> (string \<times> bytes) list" where
  "writes [] = []"
| "writes (WriteFileCall p b # t) = (p, b) # writes t"
| "writes (_ # t) = writes t"

text \<open>The files \<open>sign\<close> is given to read.\<close>

definition inputFiles ::
  "string \<Rightarrow> string \<Rightarrow> string \<Rightarrow> string option \<Rightarrow> string option \<Rightarrow> string list" where
  "inputFiles cf kf mf cert ints =
     [cf, mf, kf] @ (if supplied cert then [the cert] else [])
       @ (if supplied ints then [the ints] else [])"

subsection \<open>An instance of the libraries\<close>

text \<open>
  To run \<open>sign\<close> on concrete inputs: a file system in memory (a map from names to
  contents, as afero's \<open>MemMapFs\<close>) and small stand-ins for the codecs, the certificate
  store and the signer.
\<close>

type_synonym memfs = "string \<Rightarrow> bytes option"

definition memLib :: "(memfs, bytes, bytes, bytes, bytes list, nat) lib" where
  "memLib =
     \<lparr>ReadFile = (\<lambda>f p. case f p of None \<Rightarrow> Inl ''file does not exist'' | Some b \<Rightarrow> Inr b),
      WriteFile = (\<lambda>f p b. (f(p \<mapsto> b), None)),
      FromCBOR = (\<lambda>b. if b = [] then Inl ''EOF'' else Inr b),
      CorimValid = (\<lambda>c. if c = [0] then Some ''empty id'' else None),
      FromJSON = (\<lambda>b. if b = [] then Inl ''unexpected end of JSON input'' else Inr b),
      MetaValid = (\<lambda>m. if m = [0] then Some ''no signer'' else None),
      NewSignerFromJWK = (\<lambda>b. if b = [] then Inl ''empty key'' else Inr b),
      zeroValue = [],
      AddSigningCert = (\<lambda>s der. if der = [] then Inl ''nil signing cert''
                                 else Inr (s\<lparr>rest := [der]\<rparr>)),
      AddIntermediateCerts = (\<lambda>s der. if der = [] then Inl ''nil or empty intermediate certs''
                                       else Inr (s\<lparr>rest := rest s @ [der]\<rparr>)),
      Sign = (\<lambda>s k r. Inr (k @ UnsignedCorim s @ Meta s @ concat (rest s)))\<rparr>"

text \<open>
  The same on a full disk: \<open>afero.WriteFile\<close> opens the file with
  \<open>O_CREATE|O_TRUNC\<close> and then writes, so a write that fails leaves the file empty.
\<close>

definition fullLib :: "(memfs, bytes, bytes, bytes, bytes list, nat) lib" where
  "fullLib = memLib\<lparr>WriteFile := (\<lambda>f p b. (f(p \<mapsto> []), Some ''no space left on device''))\<rparr>"

text \<open>
  The same with names that are cleaned before use, as afero does with
  \<open>filepath.Clean\<close>; of the cleaning, only the removal of a leading \<open>./\<close> is kept
  here, so that \<open>./corim.cbor\<close> and \<open>corim.cbor\<close> are one file.
\<close>

definition clean :: "string \<Rightarrow> string" where
  "clean p = (if take 2 p = ''./'' then drop 2 p else p)"

definition cleanLib :: "(memfs, bytes, bytes, bytes, bytes list, nat) lib" where
  "cleanLib =
     memLib\<lparr>ReadFile := (\<lambda>f p. case f (clean p) of None \<Rightarrow> Inl ''file does not exist''
                                | Some b \<Rightarrow> Inr b),
            WriteFile := (\<lambda>f p b. (f(clean p \<mapsto> b), None))\<rparr>"

definition files :: memfs where
  "files = [''corim.cbor'' \<mapsto> [1, 2, 3], ''meta.json'' \<mapsto> [4, 5], ''key.jwk'' \<mapsto> [6],
            ''cert.der'' \<mapsto> [7], ''ints.der'' \<mapsto> [8, 9], ''bad.cbor'' \<mapsto> [0],
            ''bad.json'' \<mapsto> [0]]"

section \<open>Properties\<close>

subsection \<open>The stages of a run\<close>

lemmas action_defs =
  andthen_def call_def readFile_def writeFile_def ret_def fail_def note_step_def check_def

lemma sign_stages:
  "sign L rnd cf kf mf outF cert ints f =
     (case loadInputs L f cf kf mf of
        Inl (e, n) \<Rightarrow> (Inl e, f, take n (loadCalls cf mf kf))
      | Inr (c, m, k) \<Rightarrow>
         (case addCerts L f \<lparr>UnsignedCorim = c, Meta = m, rest = zeroValue L\<rparr> cert ints of
            Inl (e, t) \<Rightarrow> (Inl e, f, loadCalls cf mf kf @ t)
          | Inr s \<Rightarrow>
             (case Sign L s k rnd of
                Inl msg \<Rightarrow>
                  (Inl (ErrSign msg), f,
                   loadCalls cf mf kf @ certCalls cert @ intsCalls ints @ [SignCall])
              | Inr env \<Rightarrow>
                 (case WriteFile L f (signedCorimFile cf outF) env of
                    (f', Some msg) \<Rightarrow>
                      (Inl (ErrSave (signedCorimFile cf outF) msg), f',
                       loadCalls cf mf kf @ certCalls cert @ intsCalls ints @
                         [SignCall, WriteFileCall (signedCorimFile cf outF) env])
                  | (f', None) \<Rightarrow>
                      (Inr (signedCorimFile cf outF), f',
                       loadCalls cf mf kf @ certCalls cert @ intsCalls ints @
                         [SignCall, WriteFileCall (signedCorimFile cf outF) env])))))"
  unfolding sign_def action_defs loadInputs_def loadCalls_def addCerts_def certCalls_def
    intsCalls_def
  apply (cases "ReadFile L f cf"; simp)
  subgoal for b
    apply (cases "FromCBOR L b"; simp)
    subgoal for c
      apply (cases "CorimValid L c"; simp)
      apply (cases "ReadFile L f mf"; simp)
      subgoal for j
        apply (cases "FromJSON L j"; simp)
        subgoal for m
          apply (cases "MetaValid L m"; simp)
          apply (cases "ReadFile L f kf"; simp)
          subgoal for w
            apply (cases "NewSignerFromJWK L w"; simp)
            subgoal for k
              by (cases "supplied cert"; cases "supplied ints";
                  simp split: sum.split option.split prod.split)
            done
          done
        done
      done
    done
  done

text \<open>The five ways a run can end.\<close>

lemma sign_cases [consumes 1, case_names Early Certs Signing Save Done]:
  assumes run: "sign L rnd cf kf mf outF cert ints f = (r, f', t)"
  obtains
    (Early) e n where
      "loadInputs L f cf kf mf = Inl (e, n)" "r = Inl e" "f' = f"
      "t = take n (loadCalls cf mf kf)"
  | (Certs) c m k e t0 where
      "loadInputs L f cf kf mf = Inr (c, m, k)"
      "addCerts L f \<lparr>UnsignedCorim = c, Meta = m, rest = zeroValue L\<rparr> cert ints = Inl (e, t0)"
      "r = Inl e" "f' = f" "t = loadCalls cf mf kf @ t0"
  | (Signing) c m k s msg where
      "loadInputs L f cf kf mf = Inr (c, m, k)"
      "addCerts L f \<lparr>UnsignedCorim = c, Meta = m, rest = zeroValue L\<rparr> cert ints = Inr s"
      "Sign L s k rnd = Inl msg" "r = Inl (ErrSign msg)" "f' = f"
      "t = loadCalls cf mf kf @ certCalls cert @ intsCalls ints @ [SignCall]"
  | (Save) c m k s env msg where
      "loadInputs L f cf kf mf = Inr (c, m, k)"
      "addCerts L f \<lparr>UnsignedCorim = c, Meta = m, rest = zeroValue L\<rparr> cert ints = Inr s"
      "Sign L s k rnd = Inr env"
      "WriteFile L f (signedCorimFile cf outF) env = (f', Some msg)"
      "r = Inl (ErrSave (signedCorimFile cf outF) msg)"
      "t = loadCalls cf mf kf @ certCalls cert @ intsCalls ints @
           [SignCall, WriteFileCall (signedCorimFile cf outF) env]"
  | (Done) c m k s env where
      "loadInputs L f cf kf mf = Inr (c, m, k)"
      "addCerts L f \<lparr>UnsignedCorim = c, Meta = m, rest = zeroValue L\<rparr> cert ints = Inr s"
      "Sign L s k rnd = Inr env"
      "WriteFile L f (signedCorimFile cf outF) env = (f', None)"
      "r = Inr (signedCorimFile cf outF)"
      "t = loadCalls cf mf kf @ certCalls cert @ intsCalls ints @
           [SignCall, WriteFileCall (signedCorimFile cf outF) env]"
proof (cases "loadInputs L f cf kf mf")
  case (Inl a)
  obtain e n where a: "a = (e, n)" by (cases a)
  from run Inl a have "r = Inl e" "f' = f" "t = take n (loadCalls cf mf kf)"
    by (simp_all add: sign_stages)
  with Inl a show thesis using Early by simp
next
  case (Inr a)
  obtain c m k where a: "a = (c, m, k)" by (cases a)
  note li = Inr [unfolded a]
  show thesis
  proof (cases "addCerts L f \<lparr>UnsignedCorim = c, Meta = m, rest = zeroValue L\<rparr> cert ints")
    case (Inl b)
    obtain e t0 where b: "b = (e, t0)" by (cases b)
    from run li Inl b have "r = Inl e" "f' = f" "t = loadCalls cf mf kf @ t0"
      by (simp_all add: sign_stages)
    with li Inl b show thesis using Certs by simp
  next
    case ac: (Inr s)
    show thesis
    proof (cases "Sign L s k rnd")
      case (Inl msg)
      from run li ac Inl have "r = Inl (ErrSign msg)" "f' = f"
        "t = loadCalls cf mf kf @ certCalls cert @ intsCalls ints @ [SignCall]"
        by (simp_all add: sign_stages)
      with li ac Inl show thesis using Signing by simp
    next
      case sg: (Inr env)
      obtain g werr where w: "WriteFile L f (signedCorimFile cf outF) env = (g, werr)"
        by (cases "WriteFile L f (signedCorimFile cf outF) env")
      show thesis
      proof (cases werr)
        case None
        from run li ac sg w None have "r = Inr (signedCorimFile cf outF)" "f' = g"
          "t = loadCalls cf mf kf @ certCalls cert @ intsCalls ints @
             [SignCall, WriteFileCall (signedCorimFile cf outF) env]"
          by (simp_all add: sign_stages)
        with li ac sg w None show thesis using Done by simp
      next
        case (Some msg)
        from run li ac sg w Some have "r = Inl (ErrSave (signedCorimFile cf outF) msg)" "f' = g"
          "t = loadCalls cf mf kf @ certCalls cert @ intsCalls ints @
             [SignCall, WriteFileCall (signedCorimFile cf outF) env]"
          by (simp_all add: sign_stages)
        with li ac sg w Some show thesis using Save by simp
      qed
    qed
  qed
qed

subsection \<open>Loading and the certificates\<close>

lemma loadInputs_Inr_iff:
  "loadInputs L f cf kf mf = Inr (c, m, k) \<longleftrightarrow>
     (\<exists>b j w. ReadFile L f cf = Inr b \<and> FromCBOR L b = Inr c \<and> CorimValid L c = None \<and>
        ReadFile L f mf = Inr j \<and> FromJSON L j = Inr m \<and> MetaValid L m = None \<and>
        ReadFile L f kf = Inr w \<and> NewSignerFromJWK L w = Inr k)"
  by (auto simp: loadInputs_def split: sum.splits option.splits)

lemma loadInputs_cong:
  "ReadFile L g cf = ReadFile L f cf \<Longrightarrow> ReadFile L g mf = ReadFile L f mf \<Longrightarrow>
   ReadFile L g kf = ReadFile L f kf \<Longrightarrow> loadInputs L g cf kf mf = loadInputs L f cf kf mf"
  by (simp add: loadInputs_def cong: sum.case_cong option.case_cong)

lemma addCerts_cong:
  "(supplied cert \<Longrightarrow> ReadFile L g (the cert) = ReadFile L f (the cert)) \<Longrightarrow>
   (supplied ints \<Longrightarrow> ReadFile L g (the ints) = ReadFile L f (the ints)) \<Longrightarrow>
   addCerts L g s cert ints = addCerts L f s cert ints"
  by (cases "supplied cert"; cases "supplied ints") (simp_all add: addCerts_def cong: sum.case_cong)

lemma addCerts_no_cert:
  "supplied ints \<Longrightarrow> \<not> supplied cert \<Longrightarrow> addCerts L f s cert ints = Inl (ErrNoCert, [])"
  by (simp add: addCerts_def)

lemma addCerts_Inl_calls:
  "addCerts L f s cert ints = Inl (e, t0) \<Longrightarrow>
     prefix t0 (certCalls cert @ intsCalls ints) \<and> SignCall \<notin> set t0 \<and> writes t0 = [] \<and>
     (AddIntermediateCertsCall \<in> set t0 \<longrightarrow>
        supplied cert \<and> supplied ints \<and> t0 = certCalls cert @ intsCalls ints)"
  by (auto simp: addCerts_def certCalls_def intsCalls_def split: sum.splits if_splits)

lemma writes_append: "writes (t @ u) = writes t @ writes u"
  by (induction t rule: writes.induct) simp_all

lemma writes_loadCalls: "writes (take n (loadCalls cf mf kf)) = []"
  by (simp add: loadCalls_def take_Cons')

subsection \<open>Runs on the instance\<close>

lemmas run_defs = sign_stages loadInputs_def addCerts_def memLib_def files_def loadCalls_def
  certCalls_def intsCalls_def signedCorimFile_def supplied_def

lemma run_plain:
  "sign memLib 0 ''corim.cbor'' ''key.jwk'' ''meta.json'' None None None files =
     (Inr ''signed-corim.cbor'', files(''signed-corim.cbor'' \<mapsto> [6, 1, 2, 3, 4, 5]),
      [ReadFileCall ''corim.cbor'', FromCBORCall, CorimValidCall,
       ReadFileCall ''meta.json'', FromJSONCall, MetaValidCall,
       ReadFileCall ''key.jwk'', NewSignerFromJWKCall, SignedCorimLit,
       SignCall, WriteFileCall ''signed-corim.cbor'' [6, 1, 2, 3, 4, 5]])"
  by (simp add: run_defs)

lemma run_chain:
  "sign memLib 0 ''corim.cbor'' ''key.jwk'' ''meta.json'' (Some ''out.cbor'') (Some ''cert.der'')
     (Some ''ints.der'') files =
     (Inr ''out.cbor'', files(''out.cbor'' \<mapsto> [6, 1, 2, 3, 4, 5, 7, 8, 9]),
      [ReadFileCall ''corim.cbor'', FromCBORCall, CorimValidCall,
       ReadFileCall ''meta.json'', FromJSONCall, MetaValidCall,
       ReadFileCall ''key.jwk'', NewSignerFromJWKCall, SignedCorimLit,
       ReadFileCall ''cert.der'', AddSigningCertCall,
       ReadFileCall ''ints.der'', AddIntermediateCertsCall,
       SignCall, WriteFileCall ''out.cbor'' [6, 1, 2, 3, 4, 5, 7, 8, 9]])"
  by (simp add: run_defs)

lemma run_invalid:
  "sign memLib 0 ''bad.cbor'' ''key.jwk'' ''meta.json'' None None None files =
     (Inl (ErrValidCorim ''empty id''), files,
      [ReadFileCall ''bad.cbor'', FromCBORCall, CorimValidCall])"
  by (simp add: run_defs)

subsection \<open>Validation comes before the key and the signer\<close>

text \<open>
  C1.  In every run of \<open>sign\<close> the first three calls are, in this order, the read of the
  manifest, its decoding and its validation.  When the decoded manifest fails \<open>Valid\<close>,
  \<open>sign\<close> returns the validation error after exactly these three calls and leaves the file
  system as it was: the key is not read and \<open>Sign\<close> is not called.  Whenever a run makes a
  fourth call, creates the signer or calls \<open>Sign\<close>, the manifest was read, decoded and
  found valid.
\<close>

theorem sign_validates_first:
  assumes run: "sign L rnd cf kf mf outF cert ints f = (r, f', t)"
  shows "(\<forall>b c msg. ReadFile L f cf = Inr b \<and> FromCBOR L b = Inr c \<and> CorimValid L c = Some msg
            \<longrightarrow> r = Inl (ErrValidCorim msg) \<and> f' = f \<and>
                t = [ReadFileCall cf, FromCBORCall, CorimValidCall])
       \<and> take 3 t = take (length t) [ReadFileCall cf, FromCBORCall, CorimValidCall]
       \<and> (3 < length t \<or> NewSignerFromJWKCall \<in> set t \<or> SignCall \<in> set t
            \<longrightarrow> (\<exists>b c. ReadFile L f cf = Inr b \<and> FromCBOR L b = Inr c \<and> CorimValid L c = None))"
proof -
  let ?P = "[ReadFileCall cf, FromCBORCall, CorimValidCall]"
  have lc: "loadCalls cf mf kf = ?P @ drop 3 (loadCalls cf mf kf)"
    by (simp add: loadCalls_def)
  have valid: "\<exists>b c. ReadFile L f cf = Inr b \<and> FromCBOR L b = Inr c \<and> CorimValid L c = None"
    if "loadInputs L f cf kf mf = Inr (c, m, k)" for c m k
    using that by (auto simp: loadInputs_Inr_iff)
  have early: "(\<forall>b c msg. ReadFile L f cf = Inr b \<and> FromCBOR L b = Inr c \<and> CorimValid L c = Some msg
            \<longrightarrow> e = ErrValidCorim msg \<and> n = 3)
       \<and> take 3 (take n (loadCalls cf mf kf)) = take (length (take n (loadCalls cf mf kf))) ?P
       \<and> (3 < n \<or> NewSignerFromJWKCall \<in> set (take n (loadCalls cf mf kf))
            \<longrightarrow> (\<exists>b c. ReadFile L f cf = Inr b \<and> FromCBOR L b = Inr c \<and> CorimValid L c = None))
       \<and> SignCall \<notin> set (take n (loadCalls cf mf kf)) \<and> n \<le> 8"
    if "loadInputs L f cf kf mf = Inl (e, n)" for e n
    using that
    by (auto simp: loadInputs_def loadCalls_def split: sum.splits option.splits)
  show ?thesis
    using run
  proof (cases rule: sign_cases)
    case (Early e n)
    from early [OF Early(1)] Early show ?thesis
      by (auto simp: loadCalls_def)
  next
    case (Certs c m k e t0)
    with valid [OF Certs(1)] show ?thesis by (auto simp: loadCalls_def)
  next
    case (Signing c m k s msg)
    with valid [OF Signing(1)] show ?thesis by (auto simp: loadCalls_def)
  next
    case (Save c m k s env msg)
    with valid [OF Save(1)] show ?thesis by (auto simp: loadCalls_def)
  next
    case (Done c m k s env)
    with valid [OF Done(1)] show ?thesis by (auto simp: loadCalls_def)
  qed
qed

theorem sign_validates_first_witness:
  "sign memLib 0 ''bad.cbor'' ''key.jwk'' ''meta.json'' None None None files =
     (Inl (ErrValidCorim ''empty id''), files,
      [ReadFileCall ''bad.cbor'', FromCBORCall, CorimValidCall])
   \<and> ReadFile memLib files ''bad.cbor'' = Inr [0] \<and> FromCBOR memLib [0] = Inr [0]
   \<and> CorimValid memLib [0] = Some ''empty id''
   \<and> (\<exists>b c. ReadFile memLib files ''corim.cbor'' = Inr b \<and> FromCBOR memLib b = Inr c \<and>
         CorimValid memLib c = None)"
proof -
  have side: "ReadFile memLib files ''bad.cbor'' = Inr [0] \<and> FromCBOR memLib [0] = Inr [0]
       \<and> CorimValid memLib [0] = Some ''empty id''"
    by (simp add: memLib_def files_def)
  have ok: "\<exists>b c. ReadFile memLib files ''corim.cbor'' = Inr b \<and> FromCBOR memLib b = Inr c \<and>
         CorimValid memLib c = None"
    using sign_validates_first [OF run_plain] by simp
  show ?thesis
    using sign_validates_first [OF run_invalid] run_invalid side ok by simp
qed

subsection \<open>The write comes last\<close>

lemma writes_calls [simp]:
  "writes (loadCalls cf mf kf) = []" "writes (certCalls cert) = []" "writes (intsCalls ints) = []"
  by (simp_all add: loadCalls_def certCalls_def intsCalls_def)

lemma loaded_raw:
  "loadInputs L f cf kf mf = Inr (c, m, k) \<Longrightarrow>
     \<exists>b j w. ReadFile L f cf = Inr b \<and> FromCBOR L b = Inr c \<and> CorimValid L c = None \<and>
        ReadFile L f mf = Inr j \<and> FromJSON L j = Inr m \<and> MetaValid L m = None \<and>
        ReadFile L f kf = Inr w \<and> NewSignerFromJWK L w = Inr k"
  by (simp add: loadInputs_Inr_iff)

lemma loadInputs_Inl_shape:
  "loadInputs L f cf kf mf = Inl (e, n) \<Longrightarrow>
     (\<exists>c. e = ErrLoadCorim cf c) \<or> (\<exists>c. e = ErrDecodeCorim cf c) \<or> (\<exists>c. e = ErrValidCorim c) \<or>
     (\<exists>c. e = ErrLoadMeta mf c) \<or> (\<exists>c. e = ErrDecodeMeta mf c) \<or> (\<exists>c. e = ErrValidMeta c) \<or>
     (\<exists>c. e = ErrLoadKey kf c) \<or> (\<exists>c. e = ErrNewSigner kf c)"
  by (auto simp: loadInputs_def split: sum.splits option.splits)

lemma addCerts_Inl_shape:
  "addCerts L f s cert ints = Inl (e, t0) \<Longrightarrow>
     (\<exists>c. supplied cert \<and> e = ErrLoadCert (the cert) c) \<or> (\<exists>c. e = ErrAddCert c) \<or>
     e = ErrNoCert \<or>
     (\<exists>c. supplied ints \<and> e = ErrLoadIntermediates (the ints) c) \<or>
     (\<exists>c. e = ErrAddIntermediates c)"
  by (auto simp: addCerts_def split: sum.splits if_splits)

lemma loadInputs_not_save: "loadInputs L f cf kf mf = Inl (e, n) \<Longrightarrow> e \<noteq> ErrSave p msg"
  by (auto dest: loadInputs_Inl_shape)

lemma addCerts_not_save: "addCerts L f s cert ints = Inl (e, t0) \<Longrightarrow> e \<noteq> ErrSave p msg"
  by (auto dest: addCerts_Inl_shape)

text \<open>
  C3 (as amended).  When \<open>sign\<close> returns an error of any step before the write (reading,
  decoding, validating, loading the key, the certificates, signing), it has not called
  \<open>WriteFile\<close> and the file system is as it was.  \<open>WriteFile\<close> is called at most once, as
  the last call of the run, right after a successful \<open>Sign\<close> and after every earlier step
  has succeeded.  When \<open>sign\<close> succeeds, the file system is the one that this write of the
  whole envelope left.  When the write itself fails, \<open>sign\<close> returns that error and the
  file system is the one the failed \<open>WriteFile\<close> left.
\<close>

theorem sign_writes_last:
  assumes run: "sign L rnd cf kf mf outF cert ints f = (r, f', t)"
  shows "(\<forall>e. r = Inl e \<and> (\<forall>p msg. e \<noteq> ErrSave p msg) \<longrightarrow> f' = f \<and> writes t = [])
       \<and> (\<forall>p msg. r = Inl (ErrSave p msg) \<longrightarrow>
            (\<exists>env. writes t = [(p, env)] \<and> WriteFile L f p env = (f', Some msg)))
       \<and> (\<forall>p. r = Inr p \<longrightarrow>
            (\<exists>s k env. Sign L s k rnd = Inr env \<and> writes t = [(p, env)] \<and>
               WriteFile L f p env = (f', None)))
       \<and> (\<forall>p env. (p, env) \<in> set (writes t) \<longrightarrow>
            t = butlast t @ [WriteFileCall p env] \<and> writes (butlast t) = [] \<and>
            last (butlast t) = SignCall \<and>
            (\<exists>b c j m w k s. ReadFile L f cf = Inr b \<and> FromCBOR L b = Inr c \<and>
               CorimValid L c = None \<and> ReadFile L f mf = Inr j \<and> FromJSON L j = Inr m \<and>
               MetaValid L m = None \<and> ReadFile L f kf = Inr w \<and>
               NewSignerFromJWK L w = Inr k \<and> Sign L s k rnd = Inr env))"
  using run
proof (cases rule: sign_cases)
  case (Early e n)
  then show ?thesis
    using loadInputs_not_save [OF Early(1)] by (simp add: writes_loadCalls)
next
  case (Certs c m k e t0)
  with addCerts_Inl_calls [OF Certs(2)] addCerts_not_save [OF Certs(2)] show ?thesis
    by (simp add: writes_append)
next
  case (Signing c m k s msg)
  then show ?thesis by (simp add: writes_append)
next
  case (Save c m k s env msg)
  from loaded_raw [OF Save(1)] Save(3) have
    "\<exists>b c j m w k s. ReadFile L f cf = Inr b \<and> FromCBOR L b = Inr c \<and>
       CorimValid L c = None \<and> ReadFile L f mf = Inr j \<and> FromJSON L j = Inr m \<and>
       MetaValid L m = None \<and> ReadFile L f kf = Inr w \<and>
       NewSignerFromJWK L w = Inr k \<and> Sign L s k rnd = Inr env"
    by blast
  with Save show ?thesis
    by (simp add: writes_append butlast_append)
next
  case (Done c m k s env)
  from loaded_raw [OF Done(1)] Done(3) have
    "\<exists>b c j m w k s. ReadFile L f cf = Inr b \<and> FromCBOR L b = Inr c \<and>
       CorimValid L c = None \<and> ReadFile L f mf = Inr j \<and> FromJSON L j = Inr m \<and>
       MetaValid L m = None \<and> ReadFile L f kf = Inr w \<and>
       NewSignerFromJWK L w = Inr k \<and> Sign L s k rnd = Inr env"
    by blast
  with Done show ?thesis
    by (auto simp: writes_append butlast_append)
qed


text \<open>On a full disk the run fails in the write, which has emptied the destination.\<close>

lemma run_full:
  "sign fullLib 0 ''corim.cbor'' ''key.jwk'' ''meta.json'' None None None files =
     (Inl (ErrSave ''signed-corim.cbor'' ''no space left on device''),
      files(''signed-corim.cbor'' \<mapsto> []),
      [ReadFileCall ''corim.cbor'', FromCBORCall, CorimValidCall,
       ReadFileCall ''meta.json'', FromJSONCall, MetaValidCall,
       ReadFileCall ''key.jwk'', NewSignerFromJWKCall, SignedCorimLit,
       SignCall, WriteFileCall ''signed-corim.cbor'' [6, 1, 2, 3, 4, 5]])"
  by (simp add: run_defs fullLib_def)

text \<open>
  C3 as stated fails: \<open>sign\<close> returns an error and a file that did not exist has been
  created, without the envelope in it.
\<close>

theorem sign_failed_write_counterexample:
  "fst (sign fullLib 0 ''corim.cbor'' ''key.jwk'' ''meta.json'' None None None files) =
     Inl (ErrSave ''signed-corim.cbor'' ''no space left on device'')
   \<and> files ''signed-corim.cbor'' = None
   \<and> fst (snd (sign fullLib 0 ''corim.cbor'' ''key.jwk'' ''meta.json'' None None None files))
        ''signed-corim.cbor'' = Some []"
  by (simp add: run_full) (simp add: files_def)

theorem sign_writes_last_witness:
  "sign memLib 0 ''bad.cbor'' ''key.jwk'' ''meta.json'' None None None files =
     (Inl (ErrValidCorim ''empty id''), files,
      [ReadFileCall ''bad.cbor'', FromCBORCall, CorimValidCall])
   \<and> writes [ReadFileCall ''bad.cbor'', FromCBORCall, CorimValidCall] = []
   \<and> (\<exists>s k env. Sign memLib s k 0 = Inr env \<and>
         WriteFile memLib files ''signed-corim.cbor'' env =
           (files(''signed-corim.cbor'' \<mapsto> [6, 1, 2, 3, 4, 5]), None))
   \<and> (\<exists>env. WriteFile fullLib files ''signed-corim.cbor'' env =
         (files(''signed-corim.cbor'' \<mapsto> []), Some ''no space left on device''))"
proof -
  have a: "writes [ReadFileCall ''bad.cbor'', FromCBORCall, CorimValidCall] = []"
    using sign_writes_last [OF run_invalid] by simp
  have b: "\<exists>s k env. Sign memLib s k 0 = Inr env \<and>
         WriteFile memLib files ''signed-corim.cbor'' env =
           (files(''signed-corim.cbor'' \<mapsto> [6, 1, 2, 3, 4, 5]), None)"
    using sign_writes_last [OF run_plain] by auto
  have c: "\<exists>env. WriteFile fullLib files ''signed-corim.cbor'' env =
         (files(''signed-corim.cbor'' \<mapsto> []), Some ''no space left on device'')"
    using sign_writes_last [OF run_full] by auto
  show ?thesis using run_invalid a b c by simp
qed

subsection \<open>The name of the output file\<close>

text \<open>
  C4.  Whenever \<open>sign\<close> writes, it writes to \<open>"signed-"\<close> followed by the name of the
  manifest file when the output argument is nil or empty, and to exactly the output
  argument otherwise.  When it succeeds it returns that name, the name of the one file it
  wrote.
\<close>

theorem sign_output_name:
  assumes run: "sign L rnd cf kf mf outF cert ints f = (r, f', t)"
  shows "(\<forall>p env. (p, env) \<in> set (writes t) \<longrightarrow>
            p = (case outF of None \<Rightarrow> ''signed-'' @ cf
                 | Some q \<Rightarrow> if q = [] then ''signed-'' @ cf else q))
       \<and> (\<forall>p. r = Inr p \<longrightarrow>
            p = (case outF of None \<Rightarrow> ''signed-'' @ cf
                 | Some q \<Rightarrow> if q = [] then ''signed-'' @ cf else q) \<and>
            (\<exists>env. writes t = [(p, env)] \<and> WriteFile L f p env = (f', None)))"
proof -
  have name: "signedCorimFile cf outF =
      (case outF of None \<Rightarrow> ''signed-'' @ cf | Some q \<Rightarrow> if q = [] then ''signed-'' @ cf else q)"
    by (simp add: signedCorimFile_def supplied_def split: option.split)
  show ?thesis
    using run
  proof (cases rule: sign_cases)
    case (Early e n)
    then show ?thesis by (simp add: writes_loadCalls)
  next
    case (Certs c m k e t0)
    with addCerts_Inl_calls [OF Certs(2)] show ?thesis by (simp add: writes_append)
  next
    case (Signing c m k s msg)
    then show ?thesis by (simp add: writes_append)
  next
    case (Save c m k s env msg)
    then show ?thesis by (simp add: writes_append name)
  next
    case (Done c m k s env)
    then show ?thesis by (simp add: writes_append name)
  qed
qed


theorem sign_output_name_witness:
  "fst (sign memLib 0 ''corim.cbor'' ''key.jwk'' ''meta.json'' None None None files) =
     Inr (''signed-'' @ ''corim.cbor'')
   \<and> fst (sign memLib 0 ''corim.cbor'' ''key.jwk'' ''meta.json'' (Some []) None None files) =
     Inr (''signed-'' @ ''corim.cbor'')
   \<and> fst (sign memLib 0 ''corim.cbor'' ''key.jwk'' ''meta.json'' (Some ''out.cbor'')
        (Some ''cert.der'') (Some ''ints.der'') files) = Inr ''out.cbor''
   \<and> (\<exists>env. WriteFile memLib files ''out.cbor'' env =
         (files(''out.cbor'' \<mapsto> [6, 1, 2, 3, 4, 5, 7, 8, 9]), None))"
proof -
  have run_empty:
    "sign memLib 0 ''corim.cbor'' ''key.jwk'' ''meta.json'' (Some []) None None files =
       (Inr ''signed-corim.cbor'', files(''signed-corim.cbor'' \<mapsto> [6, 1, 2, 3, 4, 5]),
        [ReadFileCall ''corim.cbor'', FromCBORCall, CorimValidCall,
         ReadFileCall ''meta.json'', FromJSONCall, MetaValidCall,
         ReadFileCall ''key.jwk'', NewSignerFromJWKCall, SignedCorimLit,
         SignCall, WriteFileCall ''signed-corim.cbor'' [6, 1, 2, 3, 4, 5]])"
    by (simp add: run_defs)
  have a: "Inr ''signed-corim.cbor'' = (Inr (''signed-'' @ ''corim.cbor'') :: sign_error + string)"
    by simp
  have b: "\<exists>env. WriteFile memLib files ''out.cbor'' env =
         (files(''out.cbor'' \<mapsto> [6, 1, 2, 3, 4, 5, 7, 8, 9]), None)"
    using sign_output_name [OF run_chain] by blast
  show ?thesis
    unfolding run_plain run_empty run_chain fst_conv using a b by blast
qed

subsection \<open>The order of the calls\<close>

text \<open>
  C7.  A run of \<open>sign\<close> that succeeds has made exactly these calls, in this order: read
  the manifest, decode it, validate it; read the metadata, decode it, validate it; read the
  key, create the signer; build the \<open>SignedCorim\<close>; when a certificate is given, read it
  and add it; when intermediate certificates are given, read them and add them; sign; write
  the envelope.
\<close>

theorem sign_call_order:
  assumes run: "sign L rnd cf kf mf outF cert ints f = (Inr p, f', t)"
  shows "\<exists>env. t =
     [ReadFileCall cf, FromCBORCall, CorimValidCall,
      ReadFileCall mf, FromJSONCall, MetaValidCall,
      ReadFileCall kf, NewSignerFromJWKCall,
      SignedCorimLit]
     @ (if supplied cert then [ReadFileCall (the cert), AddSigningCertCall] else [])
     @ (if supplied ints then [ReadFileCall (the ints), AddIntermediateCertsCall] else [])
     @ [SignCall, WriteFileCall p env]"
  using run
  by (cases rule: sign_cases) (simp_all add: loadCalls_def certCalls_def intsCalls_def)

theorem sign_call_order_witness:
  "sign memLib 0 ''corim.cbor'' ''key.jwk'' ''meta.json'' (Some ''out.cbor'') (Some ''cert.der'')
     (Some ''ints.der'') files =
     (Inr ''out.cbor'', files(''out.cbor'' \<mapsto> [6, 1, 2, 3, 4, 5, 7, 8, 9]),
      [ReadFileCall ''corim.cbor'', FromCBORCall, CorimValidCall,
       ReadFileCall ''meta.json'', FromJSONCall, MetaValidCall,
       ReadFileCall ''key.jwk'', NewSignerFromJWKCall, SignedCorimLit,
       ReadFileCall ''cert.der'', AddSigningCertCall,
       ReadFileCall ''ints.der'', AddIntermediateCertsCall,
       SignCall, WriteFileCall ''out.cbor'' [6, 1, 2, 3, 4, 5, 7, 8, 9]])
   \<and> supplied (Some ''cert.der'') \<and> supplied (Some ''ints.der'')
   \<and> (\<exists>env. snd (snd (sign memLib 0 ''corim.cbor'' ''key.jwk'' ''meta.json'' None None None
                     files)) =
        [ReadFileCall ''corim.cbor'', FromCBORCall, CorimValidCall,
         ReadFileCall ''meta.json'', FromJSONCall, MetaValidCall,
         ReadFileCall ''key.jwk'', NewSignerFromJWKCall, SignedCorimLit,
         SignCall, WriteFileCall ''signed-corim.cbor'' env])"
  using sign_call_order [OF run_chain] sign_call_order [OF run_plain]
  by (simp add: run_chain run_plain supplied_def)

subsection \<open>The flags are checked first\<close>

text \<open>
  C5.  When the name of the manifest file, of the key file or of the metadata file is nil
  or empty, the command fails with the message for the first of them that is missing
  (\<open>"no CoRIM supplied"\<close>, \<open>"no key supplied"\<close>, \<open>"no CoRIM Meta supplied"\<close>), and it has
  made no call: no file is read or written, nothing is printed, and the file system is as
  it was.
\<close>

theorem RunE_checks_flags_first:
  assumes "corimSignCorimFile F = None \<or> corimSignCorimFile F = Some [] \<or>
           corimSignKeyFile F = None \<or> corimSignKeyFile F = Some [] \<or>
           corimSignMetaFile F = None \<or> corimSignMetaFile F = Some []"
  shows "RunE L rnd F f =
     (Inl (if corimSignCorimFile F = None \<or> corimSignCorimFile F = Some []
             then ''no CoRIM supplied''
           else if corimSignKeyFile F = None \<or> corimSignKeyFile F = Some []
             then ''no key supplied''
           else ''no CoRIM Meta supplied''), f, [])"
proof -
  have s: "supplied p \<longleftrightarrow> \<not> (p = None \<or> p = Some [])" for p
    by (simp add: supplied_def split: option.split)
  from assms show ?thesis
    by (auto simp: RunE_def checkCorimSignArgs_def fail_def s)
qed

theorem RunE_checks_flags_first_witness:
  "corimSignKeyFile \<lparr>corimSignCorimFile = Some ''corim.cbor'', corimSignKeyFile = Some [],
      corimSignOutputFile = Some [], corimSignMetaFile = Some ''meta.json'',
      corimSignCertFile = Some [], corimSignIntermediateCerts = Some []\<rparr> = Some []
   \<and> RunE memLib 0 \<lparr>corimSignCorimFile = Some ''corim.cbor'', corimSignKeyFile = Some [],
      corimSignOutputFile = Some [], corimSignMetaFile = Some ''meta.json'',
      corimSignCertFile = Some [], corimSignIntermediateCerts = Some []\<rparr> files =
     (Inl ''no key supplied'', files, [])"
  using RunE_checks_flags_first [of "\<lparr>corimSignCorimFile = Some ''corim.cbor'',
      corimSignKeyFile = Some [], corimSignOutputFile = Some [],
      corimSignMetaFile = Some ''meta.json'', corimSignCertFile = Some [],
      corimSignIntermediateCerts = Some []\<rparr>" memLib 0 files]
  by simp

subsection \<open>Intermediate certificates need a signing certificate\<close>

lemma loadCalls_take:
  "SignCall \<notin> set (take n (loadCalls cf mf kf))"
  "AddIntermediateCertsCall \<notin> set (take n (loadCalls cf mf kf))"
  by (auto simp: loadCalls_def dest!: in_set_takeD)

lemma addCerts_cert_added:
  assumes "supplied ints"
    and "addCerts L f s cert ints = Inr s' \<or>
         (addCerts L f s cert ints = Inl (e, t0) \<and> AddIntermediateCertsCall \<in> set t0)"
  shows "supplied cert \<and>
         (\<exists>der s1. ReadFile L f (the cert) = Inr der \<and> AddSigningCert L s der = Inr s1)"
  using assms
  by (cases "supplied cert")
     (auto simp: addCerts_def certCalls_def intsCalls_def split: sum.splits)

lemma run_absent:
  "sign memLib 0 ''absent.cbor'' ''key.jwk'' ''meta.json'' None None (Some ''ints.der'') files =
     (Inl (ErrLoadCorim ''absent.cbor'' ''file does not exist''), files,
      [ReadFileCall ''absent.cbor''])"
  by (simp add: run_defs)

lemma run_no_cert:
  "sign memLib 0 ''corim.cbor'' ''key.jwk'' ''meta.json'' None None (Some ''ints.der'') files =
     (Inl ErrNoCert, files,
      [ReadFileCall ''corim.cbor'', FromCBORCall, CorimValidCall,
       ReadFileCall ''meta.json'', FromJSONCall, MetaValidCall,
       ReadFileCall ''key.jwk'', NewSignerFromJWKCall, SignedCorimLit])"
  by (simp add: run_defs)

text \<open>
  C2 (as amended).  When intermediate certificates are given without a signing
  certificate, \<open>sign\<close> fails: it never calls \<open>AddIntermediateCerts\<close>, \<open>Sign\<close> or
  \<open>WriteFile\<close> and leaves the file system as it was.  Its error is
  \<open>"cannot add intermediate certificates without a signing certificate"\<close> exactly when
  the manifest, the metadata and the key were loaded; otherwise it is the error of the step
  that failed before.  In every run, \<open>AddIntermediateCerts\<close> is called only when a signing
  certificate was given, read and added by \<open>AddSigningCert\<close> just before.
\<close>

theorem sign_intermediates_need_cert:
  assumes run: "sign L rnd cf kf mf outF cert ints f = (r, f', t)"
  shows "(supplied ints \<and> \<not> supplied cert \<longrightarrow>
            (\<exists>e. r = Inl e) \<and> f' = f \<and> AddIntermediateCertsCall \<notin> set t \<and>
            SignCall \<notin> set t \<and> writes t = [] \<and>
            (r = Inl ErrNoCert \<longleftrightarrow>
               (\<exists>b c j m w k. ReadFile L f cf = Inr b \<and> FromCBOR L b = Inr c \<and>
                  CorimValid L c = None \<and> ReadFile L f mf = Inr j \<and> FromJSON L j = Inr m \<and>
                  MetaValid L m = None \<and> ReadFile L f kf = Inr w \<and>
                  NewSignerFromJWK L w = Inr k)))
       \<and> (AddIntermediateCertsCall \<in> set t \<longrightarrow>
            supplied cert \<and>
            (\<exists>c m der s. ReadFile L f (the cert) = Inr der \<and>
               AddSigningCert L \<lparr>UnsignedCorim = c, Meta = m, rest = zeroValue L\<rparr> der = Inr s) \<and>
            (\<exists>t1 t2. t = t1 @ [AddSigningCertCall, ReadFileCall (the ints),
                                  AddIntermediateCertsCall] @ t2))"
proof -
  let ?loaded = "\<exists>b c j m w k. ReadFile L f cf = Inr b \<and> FromCBOR L b = Inr c \<and>
                  CorimValid L c = None \<and> ReadFile L f mf = Inr j \<and> FromJSON L j = Inr m \<and>
                  MetaValid L m = None \<and> ReadFile L f kf = Inr w \<and>
                  NewSignerFromJWK L w = Inr k"
  have part1: "(\<exists>e. r = Inl e) \<and> f' = f \<and> AddIntermediateCertsCall \<notin> set t \<and>
            SignCall \<notin> set t \<and> writes t = [] \<and> (r = Inl ErrNoCert \<longleftrightarrow> ?loaded)"
    if si: "supplied ints" and nc: "\<not> supplied cert"
    using run
  proof (cases rule: sign_cases)
    case (Early e n)
    have "e \<noteq> ErrNoCert" using loadInputs_Inl_shape [OF Early(1)] by auto
    moreover have "\<not> ?loaded"
      using Early(1) loadInputs_Inr_iff [of L f cf kf mf] by (metis sum.distinct(1))
    ultimately show ?thesis
      using Early by (simp add: loadCalls_take writes_loadCalls)
  next
    case (Certs c m k e t0)
    from Certs(2) si nc have "e = ErrNoCert" "t0 = []" by (simp_all add: addCerts_no_cert)
    moreover have ?loaded using loaded_raw [OF Certs(1)] by blast
    ultimately show ?thesis using Certs by (simp add: loadCalls_def)
  next
    case (Signing c m k s msg)
    with si nc show ?thesis by (simp add: addCerts_no_cert)
  next
    case (Save c m k s env msg)
    with si nc show ?thesis by (simp add: addCerts_no_cert)
  next
    case (Done c m k s env)
    with si nc show ?thesis by (simp add: addCerts_no_cert)
  qed
  have split_calls: "\<exists>t1 t2. loadCalls cf mf kf @ certCalls cert @ intsCalls ints @ u =
        t1 @ [AddSigningCertCall, ReadFileCall (the ints), AddIntermediateCertsCall] @ t2"
    if "supplied ints" "supplied cert" for u
  proof -
    have "loadCalls cf mf kf @ certCalls cert @ intsCalls ints @ u =
        (loadCalls cf mf kf @ [ReadFileCall (the cert)]) @
          [AddSigningCertCall, ReadFileCall (the ints), AddIntermediateCertsCall] @ u"
      using that by (simp add: certCalls_def intsCalls_def)
    then show ?thesis by blast
  qed
  have passed: "supplied cert \<and>
            (\<exists>c m der s. ReadFile L f (the cert) = Inr der \<and>
               AddSigningCert L \<lparr>UnsignedCorim = c, Meta = m, rest = zeroValue L\<rparr> der = Inr s) \<and>
            (\<exists>t1 t2. loadCalls cf mf kf @ certCalls cert @ intsCalls ints @ u =
               t1 @ [AddSigningCertCall, ReadFileCall (the ints),
                     AddIntermediateCertsCall] @ t2)"
    if ac: "addCerts L f \<lparr>UnsignedCorim = c, Meta = m, rest = zeroValue L\<rparr> cert ints = Inr s"
      and mem: "AddIntermediateCertsCall \<in> set (loadCalls cf mf kf @ certCalls cert @
                  intsCalls ints @ u)"
      and u: "AddIntermediateCertsCall \<notin> set u"
    for c m s u
  proof -
    from mem u have si: "supplied ints"
      by (auto simp: loadCalls_def certCalls_def intsCalls_def split: if_splits)
    from addCerts_cert_added [OF si, of L f _ cert s] ac
    have sc: "supplied cert"
      and "\<exists>der s1. ReadFile L f (the cert) = Inr der \<and>
             AddSigningCert L \<lparr>UnsignedCorim = c, Meta = m, rest = zeroValue L\<rparr> der = Inr s1"
      by blast+
    with split_calls [OF si sc, of u] show ?thesis by blast
  qed
  have part2: "supplied cert \<and>
            (\<exists>c m der s. ReadFile L f (the cert) = Inr der \<and>
               AddSigningCert L \<lparr>UnsignedCorim = c, Meta = m, rest = zeroValue L\<rparr> der = Inr s) \<and>
            (\<exists>t1 t2. t = t1 @ [AddSigningCertCall, ReadFileCall (the ints),
                                  AddIntermediateCertsCall] @ t2)"
    if mem: "AddIntermediateCertsCall \<in> set t"
    using run
  proof (cases rule: sign_cases)
    case (Early e n)
    with mem show ?thesis by (simp add: loadCalls_take)
  next
    case (Certs c m k e t0)
    with mem have in0: "AddIntermediateCertsCall \<in> set t0" by (auto simp: loadCalls_def)
    with addCerts_Inl_calls [OF Certs(2)] have
      si: "supplied ints" and sc: "supplied cert" and t0: "t0 = certCalls cert @ intsCalls ints"
      by simp_all
    from addCerts_cert_added [OF si, of L f _ cert _ e t0] Certs(2) in0
    have "\<exists>der s1. ReadFile L f (the cert) = Inr der \<and>
             AddSigningCert L \<lparr>UnsignedCorim = c, Meta = m, rest = zeroValue L\<rparr> der = Inr s1"
      by blast
    with split_calls [OF si sc, of "[]"] sc Certs(5) t0 show ?thesis by auto
  next
    case (Signing c m k s msg)
    from passed [OF Signing(2), of "[SignCall]"] mem Signing(6) show ?thesis by simp
  next
    case (Save c m k s env msg)
    from passed [OF Save(2), of "[SignCall, WriteFileCall (signedCorimFile cf outF) env]"]
      mem Save(6) show ?thesis by simp
  next
    case (Done c m k s env)
    from passed [OF Done(2), of "[SignCall, WriteFileCall (signedCorimFile cf outF) env]"]
      mem Done(6) show ?thesis by simp
  qed
  show ?thesis using part1 part2 by blast
qed

theorem sign_intermediates_need_cert_witness:
  "supplied (Some ''ints.der'') \<and> \<not> supplied None
   \<and> sign memLib 0 ''corim.cbor'' ''key.jwk'' ''meta.json'' None None (Some ''ints.der'') files =
     (Inl ErrNoCert, files,
      [ReadFileCall ''corim.cbor'', FromCBORCall, CorimValidCall,
       ReadFileCall ''meta.json'', FromJSONCall, MetaValidCall,
       ReadFileCall ''key.jwk'', NewSignerFromJWKCall, SignedCorimLit])
   \<and> (\<exists>b c j m w k. ReadFile memLib files ''corim.cbor'' = Inr b \<and> FromCBOR memLib b = Inr c \<and>
         CorimValid memLib c = None \<and> ReadFile memLib files ''meta.json'' = Inr j \<and>
         FromJSON memLib j = Inr m \<and> MetaValid memLib m = None \<and>
         ReadFile memLib files ''key.jwk'' = Inr w \<and> NewSignerFromJWK memLib w = Inr k)
   \<and> (\<exists>c m der s. ReadFile memLib files ''cert.der'' = Inr der \<and>
         AddSigningCert memLib \<lparr>UnsignedCorim = c, Meta = m, rest = zeroValue memLib\<rparr> der =
           Inr s)"
proof -
  have s: "supplied (Some ''ints.der'') \<and> \<not> supplied None"
    by (simp add: supplied_def)
  have a: "\<exists>b c j m w k. ReadFile memLib files ''corim.cbor'' = Inr b \<and> FromCBOR memLib b = Inr c \<and>
         CorimValid memLib c = None \<and> ReadFile memLib files ''meta.json'' = Inr j \<and>
         FromJSON memLib j = Inr m \<and> MetaValid memLib m = None \<and>
         ReadFile memLib files ''key.jwk'' = Inr w \<and> NewSignerFromJWK memLib w = Inr k"
    using sign_intermediates_need_cert [OF run_no_cert] s by simp
  have b: "\<exists>c m der s. ReadFile memLib files ''cert.der'' = Inr der \<and>
         AddSigningCert memLib \<lparr>UnsignedCorim = c, Meta = m, rest = zeroValue memLib\<rparr> der =
           Inr s"
    using sign_intermediates_need_cert [OF run_chain] by simp
  show ?thesis using run_no_cert s a b by blast
qed

text \<open>
  C2 as stated fails: with intermediate certificates and no signing certificate, but a
  manifest file that does not exist, the error is the one of the read.
\<close>

theorem sign_intermediates_need_cert_counterexample:
  "supplied (Some ''ints.der'') \<and> \<not> supplied None
   \<and> fst (sign memLib 0 ''absent.cbor'' ''key.jwk'' ''meta.json'' None None (Some ''ints.der'')
        files) = Inl (ErrLoadCorim ''absent.cbor'' ''file does not exist'')
   \<and> Error (ErrLoadCorim ''absent.cbor'' ''file does not exist'') =
       ''error loading unsigned CoRIM from absent.cbor: file does not exist''
   \<and> Error (ErrLoadCorim ''absent.cbor'' ''file does not exist'') \<noteq>
       ''cannot add intermediate certificates without a signing certificate''"
  by (simp add: run_absent supplied_def)

subsection \<open>What the error messages name\<close>

lemma Error_path:
  "sublist p (Error (ErrLoadCorim p c))" "sublist p (Error (ErrDecodeCorim p c))"
  "sublist p (Error (ErrLoadMeta p c))" "sublist p (Error (ErrDecodeMeta p c))"
  "sublist p (Error (ErrLoadKey p c))" "sublist p (Error (ErrNewSigner p c))"
  "sublist p (Error (ErrLoadCert p c))" "sublist p (Error (ErrLoadIntermediates p c))"
  "sublist p (Error (ErrSave p c))"
  by (simp_all only: Error.simps sublist_appendI)

lemma supplied_the: "supplied p \<Longrightarrow> p = Some (the p)"
  by (cases p) (simp_all add: supplied_def)

text \<open>
  C6 (as amended).  Every error of \<open>sign\<close> that comes from reading or decoding the
  manifest or the metadata, from reading the key or creating the signer, from reading the
  certificate or the intermediate certificates, or from writing the output, has a message
  that contains the name of that file.  The errors of the two validations, of adding the
  certificate or the intermediate certificates, of the missing certificate and of signing
  have a message made of a fixed text and the cause only: \<open>sign\<close> puts no file name in it.
\<close>

theorem sign_error_names_file:
  assumes run: "sign L rnd cf kf mf outF cert ints f = (Inl e, f', t)"
  shows "case e of
           ErrLoadCorim p c \<Rightarrow> p = cf \<and> sublist p (Error e)
         | ErrDecodeCorim p c \<Rightarrow> p = cf \<and> sublist p (Error e)
         | ErrValidCorim c \<Rightarrow> Error e = ''error validating CoRIM: '' @ c
         | ErrLoadMeta p c \<Rightarrow> p = mf \<and> sublist p (Error e)
         | ErrDecodeMeta p c \<Rightarrow> p = mf \<and> sublist p (Error e)
         | ErrValidMeta c \<Rightarrow> Error e = ''error validating CoRIM Meta: '' @ c
         | ErrLoadKey p c \<Rightarrow> p = kf \<and> sublist p (Error e)
         | ErrNewSigner p c \<Rightarrow> p = kf \<and> sublist p (Error e)
         | ErrLoadCert p c \<Rightarrow> cert = Some p \<and> sublist p (Error e)
         | ErrAddCert c \<Rightarrow> Error e = ''error adding signing certificate: '' @ c
         | ErrNoCert \<Rightarrow>
             Error e = ''cannot add intermediate certificates without a signing certificate''
         | ErrLoadIntermediates p c \<Rightarrow> ints = Some p \<and> sublist p (Error e)
         | ErrAddIntermediates c \<Rightarrow> Error e = ''error adding intermediate certificates: '' @ c
         | ErrSign c \<Rightarrow> Error e = ''error signing CoRIM: '' @ c
         | ErrSave p c \<Rightarrow>
             p = (case outF of None \<Rightarrow> ''signed-'' @ cf
                  | Some q \<Rightarrow> if q = [] then ''signed-'' @ cf else q) \<and>
             sublist p (Error e)"
proof -
  have name: "signedCorimFile cf outF =
      (case outF of None \<Rightarrow> ''signed-'' @ cf | Some q \<Rightarrow> if q = [] then ''signed-'' @ cf else q)"
    by (simp add: signedCorimFile_def supplied_def split: option.split)
  note paths = Error.simps(1,2,4,5,7,8,9,12,15)
  show ?thesis
    using run
  proof (cases rule: sign_cases)
    case (Early e' n)
    from loadInputs_Inl_shape [OF Early(1)] Early(2) show ?thesis
      by (auto simp: Error_path simp del: paths)
  next
    case (Certs c m k e' t0)
    from addCerts_Inl_shape [OF Certs(2)] Certs(3) show ?thesis
      by (auto simp: Error_path supplied_the simp del: paths)
  next
    case (Signing c m k s msg)
    then show ?thesis by simp
  next
    case (Save c m k s env msg)
    then show ?thesis by (simp add: Error_path name [symmetric] del: Error.simps)
  next
    case (Done c m k s env)
    then show ?thesis by simp
  qed
qed

theorem sign_error_names_file_witness:
  "sign memLib 0 ''absent.cbor'' ''key.jwk'' ''meta.json'' None None (Some ''ints.der'') files =
     (Inl (ErrLoadCorim ''absent.cbor'' ''file does not exist''), files,
      [ReadFileCall ''absent.cbor''])
   \<and> sublist ''absent.cbor'' (Error (ErrLoadCorim ''absent.cbor'' ''file does not exist''))
   \<and> Error (ErrLoadCorim ''absent.cbor'' ''file does not exist'') =
       ''error loading unsigned CoRIM from absent.cbor: file does not exist''"
proof -
  have "sublist ''absent.cbor'' (Error (ErrLoadCorim ''absent.cbor'' ''file does not exist''))"
    using sign_error_names_file [OF run_absent] by (simp del: Error.simps)
  then show ?thesis using run_absent by simp
qed

text \<open>
  C6 as stated fails: the error for a manifest that is not valid names neither the
  manifest file nor any other file of the call.
\<close>

theorem sign_error_names_file_counterexample:
  "fst (sign memLib 0 ''bad.cbor'' ''key.jwk'' ''meta.json'' None None None files) =
     Inl (ErrValidCorim ''empty id'')
   \<and> Error (ErrValidCorim ''empty id'') = ''error validating CoRIM: empty id''
   \<and> \<not> sublist ''bad.cbor'' (Error (ErrValidCorim ''empty id''))
   \<and> \<not> sublist ''key.jwk'' (Error (ErrValidCorim ''empty id''))
   \<and> \<not> sublist ''meta.json'' (Error (ErrValidCorim ''empty id''))"
  by (simp add: run_invalid sublist_Cons_right)

subsection \<open>The result depends on the input files only\<close>

text \<open>
  C8.  Take a signer that does not depend on the random source, and two runs of \<open>sign\<close>
  with the same arguments, on two file systems in which every input file (manifest,
  metadata, key and, when given, certificate and intermediates) reads the same, with any
  two states of the random source.  Then both runs make the same calls with the same
  arguments, so they write the same envelope bytes to the same output file; and they return
  the same result, unless the write fails in one of them.
\<close>

theorem sign_deterministic:
  assumes det: "\<forall>s k r r'. Sign L s k r = Sign L s k r'"
    and same: "\<forall>p \<in> set (inputFiles cf kf mf cert ints). ReadFile L f1 p = ReadFile L f2 p"
    and run1: "sign L r1 cf kf mf outF cert ints f1 = (res1, g1, t1)"
    and run2: "sign L r2 cf kf mf outF cert ints f2 = (res2, g2, t2)"
  shows "t1 = t2 \<and> writes t1 = writes t2 \<and>
         (res1 = res2 \<or> (\<exists>p msg. res1 = Inl (ErrSave p msg)) \<or>
          (\<exists>p msg. res2 = Inl (ErrSave p msg)))"
proof -
  have li: "loadInputs L f2 cf kf mf = loadInputs L f1 cf kf mf"
    using same by (intro loadInputs_cong) (simp_all add: inputFiles_def)
  have ac: "addCerts L f2 s cert ints = addCerts L f1 s cert ints" for s
    using same by (intro addCerts_cong) (simp_all add: inputFiles_def)
  have sg: "Sign L s k r2 = Sign L s k r1" for s k
    using det by blast
  have t: "t1 = t2 \<and> (res1 = res2 \<or> (\<exists>p msg. res1 = Inl (ErrSave p msg)) \<or>
          (\<exists>p msg. res2 = Inl (ErrSave p msg)))"
    using run1
  proof (cases rule: sign_cases)
    case (Early e n)
    with run2 show ?thesis unfolding sign_stages li by simp
  next
    case (Certs c m k e t0)
    with run2 show ?thesis unfolding sign_stages li ac by simp
  next
    case (Signing c m k s msg)
    with run2 show ?thesis unfolding sign_stages li ac sg by simp
  next
    case (Save c m k s env msg)
    with run2 show ?thesis unfolding sign_stages li ac sg
      by (cases "WriteFile L f2 (signedCorimFile cf outF) env")
         (auto split: option.splits)
  next
    case (Done c m k s env)
    with run2 show ?thesis unfolding sign_stages li ac sg
      by (cases "WriteFile L f2 (signedCorimFile cf outF) env")
         (auto split: option.splits)
  qed
  then show ?thesis by simp
qed

theorem sign_deterministic_witness:
  "Sign memLib \<lparr>UnsignedCorim = [1, 2, 3], Meta = [4, 5], rest = [[7], [8, 9]]\<rparr> [6] 0 =
     Sign memLib \<lparr>UnsignedCorim = [1, 2, 3], Meta = [4, 5], rest = [[7], [8, 9]]\<rparr> [6] 1
   \<and> ReadFile memLib files ''corim.cbor'' =
       ReadFile memLib (files(''old.cbor'' \<mapsto> [1])) ''corim.cbor''
   \<and> files ''old.cbor'' \<noteq> (files(''old.cbor'' \<mapsto> [1])) ''old.cbor''
   \<and> snd (snd (sign memLib 1 ''corim.cbor'' ''key.jwk'' ''meta.json'' (Some ''out.cbor'')
                  (Some ''cert.der'') (Some ''ints.der'') (files(''old.cbor'' \<mapsto> [1])))) =
     [ReadFileCall ''corim.cbor'', FromCBORCall, CorimValidCall,
      ReadFileCall ''meta.json'', FromJSONCall, MetaValidCall,
      ReadFileCall ''key.jwk'', NewSignerFromJWKCall, SignedCorimLit,
      ReadFileCall ''cert.der'', AddSigningCertCall,
      ReadFileCall ''ints.der'', AddIntermediateCertsCall,
      SignCall, WriteFileCall ''out.cbor'' [6, 1, 2, 3, 4, 5, 7, 8, 9]]"
proof -
  have det: "\<forall>s k r r'. Sign memLib s k r = Sign memLib s k r'"
    by (simp add: memLib_def)
  have same: "\<forall>p \<in> set (inputFiles ''corim.cbor'' ''key.jwk'' ''meta.json'' (Some ''cert.der'')
                    (Some ''ints.der'')).
         ReadFile memLib files p = ReadFile memLib (files(''old.cbor'' \<mapsto> [1])) p"
    by (simp add: inputFiles_def supplied_def memLib_def)
  obtain res2 g2 t2 where run2:
    "sign memLib 1 ''corim.cbor'' ''key.jwk'' ''meta.json'' (Some ''out.cbor'')
       (Some ''cert.der'') (Some ''ints.der'') (files(''old.cbor'' \<mapsto> [1])) = (res2, g2, t2)"
    by (rule prod_cases3)
  from sign_deterministic [OF det same run_chain run2]
  have "t2 = [ReadFileCall ''corim.cbor'', FromCBORCall, CorimValidCall,
      ReadFileCall ''meta.json'', FromJSONCall, MetaValidCall,
      ReadFileCall ''key.jwk'', NewSignerFromJWKCall, SignedCorimLit,
      ReadFileCall ''cert.der'', AddSigningCertCall,
      ReadFileCall ''ints.der'', AddIntermediateCertsCall,
      SignCall, WriteFileCall ''out.cbor'' [6, 1, 2, 3, 4, 5, 7, 8, 9]]"
    by simp
  then show ?thesis unfolding run2 by (simp add: memLib_def files_def)
qed

subsection \<open>The missing certificate is found before the intermediates are read\<close>

lemma run_bad_meta:
  "sign memLib 0 ''corim.cbor'' ''key.jwk'' ''bad.json'' None (Some []) (Some ''nowhere.der'')
     files =
     (Inl (ErrValidMeta ''no signer''), files,
      [ReadFileCall ''corim.cbor'', FromCBORCall, CorimValidCall,
       ReadFileCall ''bad.json'', FromJSONCall, MetaValidCall])"
  by (simp add: run_defs)

lemma run_nowhere:
  "sign memLib 0 ''corim.cbor'' ''key.jwk'' ''meta.json'' None (Some []) (Some ''nowhere.der'')
     files =
     (Inl ErrNoCert, files,
      [ReadFileCall ''corim.cbor'', FromCBORCall, CorimValidCall,
       ReadFileCall ''meta.json'', FromJSONCall, MetaValidCall,
       ReadFileCall ''key.jwk'', NewSignerFromJWKCall, SignedCorimLit])"
  by (simp add: run_defs)

lemma run_same_name:
  "sign memLib 0 ''absent.cbor'' ''key.jwk'' ''meta.json'' None (Some []) (Some ''absent.cbor'')
     files =
     (Inl (ErrLoadCorim ''absent.cbor'' ''file does not exist''), files,
      [ReadFileCall ''absent.cbor''])"
  by (simp add: run_defs)

lemma loadInputs_error:
  "(case loadInputs L f cf kf mf of Inl (e, n) \<Rightarrow> e | Inr x \<Rightarrow> ErrNoCert) =
     (case ReadFile L f cf of Inl msg \<Rightarrow> ErrLoadCorim cf msg | Inr b \<Rightarrow>
     (case FromCBOR L b of Inl msg \<Rightarrow> ErrDecodeCorim cf msg | Inr c \<Rightarrow>
     (case CorimValid L c of Some msg \<Rightarrow> ErrValidCorim msg | None \<Rightarrow>
     (case ReadFile L f mf of Inl msg \<Rightarrow> ErrLoadMeta mf msg | Inr j \<Rightarrow>
     (case FromJSON L j of Inl msg \<Rightarrow> ErrDecodeMeta mf msg | Inr m \<Rightarrow>
     (case MetaValid L m of Some msg \<Rightarrow> ErrValidMeta msg | None \<Rightarrow>
     (case ReadFile L f kf of Inl msg \<Rightarrow> ErrLoadKey kf msg | Inr w \<Rightarrow>
     (case NewSignerFromJWK L w of Inl msg \<Rightarrow> ErrNewSigner kf msg | Inr k \<Rightarrow>
      ErrNoCert))))))))"
  by (auto simp: loadInputs_def split: sum.split option.split)

text \<open>
  C10 (as amended).  When intermediate certificates are given without a signing
  certificate, the calls of \<open>sign\<close> are an initial part of the nine calls that load the
  manifest, the metadata and the key: its only reads are of the manifest name, the
  metadata name and the key name, and the check for the certificate comes before any read
  for the intermediates.  The file system is left as it was.  The result is the error of
  the first call that fails among the eight that read, decode and validate, and the
  missing-certificate error when none of them fails, after exactly the nine calls.  The
  result and the calls are the same on every file system that answers the reads of the
  manifest name, the metadata name and the key name alike.
\<close>

theorem sign_no_cert_before_read:
  assumes si: "supplied ints" and nc: "\<not> supplied cert"
    and run: "sign L rnd cf kf mf outF cert ints f = (r, f', t)"
  shows "prefix t [ReadFileCall cf, FromCBORCall, CorimValidCall,
                   ReadFileCall mf, FromJSONCall, MetaValidCall,
                   ReadFileCall kf, NewSignerFromJWKCall, SignedCorimLit]
       \<and> f' = f
       \<and> r = Inl
           (case ReadFile L f cf of Inl msg \<Rightarrow> ErrLoadCorim cf msg | Inr b \<Rightarrow>
           (case FromCBOR L b of Inl msg \<Rightarrow> ErrDecodeCorim cf msg | Inr c \<Rightarrow>
           (case CorimValid L c of Some msg \<Rightarrow> ErrValidCorim msg | None \<Rightarrow>
           (case ReadFile L f mf of Inl msg \<Rightarrow> ErrLoadMeta mf msg | Inr j \<Rightarrow>
           (case FromJSON L j of Inl msg \<Rightarrow> ErrDecodeMeta mf msg | Inr m \<Rightarrow>
           (case MetaValid L m of Some msg \<Rightarrow> ErrValidMeta msg | None \<Rightarrow>
           (case ReadFile L f kf of Inl msg \<Rightarrow> ErrLoadKey kf msg | Inr w \<Rightarrow>
           (case NewSignerFromJWK L w of Inl msg \<Rightarrow> ErrNewSigner kf msg | Inr k \<Rightarrow>
            ErrNoCert))))))))
       \<and> ((\<exists>b c j m w k. ReadFile L f cf = Inr b \<and> FromCBOR L b = Inr c \<and>
              CorimValid L c = None \<and> ReadFile L f mf = Inr j \<and> FromJSON L j = Inr m \<and>
              MetaValid L m = None \<and> ReadFile L f kf = Inr w \<and> NewSignerFromJWK L w = Inr k)
            \<longrightarrow> r = Inl ErrNoCert \<and>
                t = [ReadFileCall cf, FromCBORCall, CorimValidCall,
                     ReadFileCall mf, FromJSONCall, MetaValidCall,
                     ReadFileCall kf, NewSignerFromJWKCall, SignedCorimLit])
       \<and> (\<forall>g. ReadFile L g cf = ReadFile L f cf \<and> ReadFile L g mf = ReadFile L f mf \<and>
              ReadFile L g kf = ReadFile L f kf
            \<longrightarrow> sign L rnd cf kf mf outF cert ints g = (r, g, t))"
proof -
  let ?loaded = "\<exists>b c j m w k. ReadFile L f cf = Inr b \<and> FromCBOR L b = Inr c \<and>
              CorimValid L c = None \<and> ReadFile L f mf = Inr j \<and> FromJSON L j = Inr m \<and>
              MetaValid L m = None \<and> ReadFile L f kf = Inr w \<and> NewSignerFromJWK L w = Inr k"
  let ?calls = "[ReadFileCall cf, FromCBORCall, CorimValidCall,
                 ReadFileCall mf, FromJSONCall, MetaValidCall,
                 ReadFileCall kf, NewSignerFromJWKCall, SignedCorimLit]"
  let ?err = "case ReadFile L f cf of Inl msg \<Rightarrow> ErrLoadCorim cf msg | Inr b \<Rightarrow>
           (case FromCBOR L b of Inl msg \<Rightarrow> ErrDecodeCorim cf msg | Inr c \<Rightarrow>
           (case CorimValid L c of Some msg \<Rightarrow> ErrValidCorim msg | None \<Rightarrow>
           (case ReadFile L f mf of Inl msg \<Rightarrow> ErrLoadMeta mf msg | Inr j \<Rightarrow>
           (case FromJSON L j of Inl msg \<Rightarrow> ErrDecodeMeta mf msg | Inr m \<Rightarrow>
           (case MetaValid L m of Some msg \<Rightarrow> ErrValidMeta msg | None \<Rightarrow>
           (case ReadFile L f kf of Inl msg \<Rightarrow> ErrLoadKey kf msg | Inr w \<Rightarrow>
           (case NewSignerFromJWK L w of Inl msg \<Rightarrow> ErrNewSigner kf msg | Inr k \<Rightarrow>
            ErrNoCert)))))))"
  have lc: "loadCalls cf mf kf = ?calls" by (simp add: loadCalls_def)
  have li: "loadInputs L g cf kf mf = loadInputs L f cf kf mf"
    if "ReadFile L g cf = ReadFile L f cf \<and> ReadFile L g mf = ReadFile L f mf \<and>
        ReadFile L g kf = ReadFile L f kf" for g
    using that by (intro loadInputs_cong) simp_all
  show ?thesis
    using run
  proof (cases rule: sign_cases)
    case (Early e n)
    have nl: "\<not> ?loaded"
      using Early(1) loadInputs_Inr_iff [of L f cf kf mf] by (metis sum.distinct(1))
    have p: "prefix t ?calls"
      unfolding Early(4) lc [symmetric] by (rule take_is_prefix)
    have e: "e = ?err"
      using loadInputs_error [of L f cf kf mf] unfolding Early(1) by simp
    have g: "sign L rnd cf kf mf outF cert ints g = (r, g, t)"
      if "ReadFile L g cf = ReadFile L f cf \<and> ReadFile L g mf = ReadFile L f mf \<and>
          ReadFile L g kf = ReadFile L f kf" for g
      unfolding sign_stages li [OF that] Early(1) using Early(2,4) by simp
    show ?thesis
    proof (intro conjI allI impI)
      show "prefix t ?calls" by (fact p)
      show "f' = f" by (fact Early(3))
      show "r = Inl ?err" unfolding Early(2) e [symmetric] by (rule refl)
      show "r = Inl ErrNoCert" if ?loaded using that nl by contradiction
      show "t = ?calls" if ?loaded using that nl by contradiction
      show "sign L rnd cf kf mf outF cert ints g = (r, g, t)"
        if "ReadFile L g cf = ReadFile L f cf \<and> ReadFile L g mf = ReadFile L f mf \<and>
            ReadFile L g kf = ReadFile L f kf" for g
        using that by (rule g)
    qed
  next
    case (Certs c m k e t0)
    from Certs(2) si nc have e: "e = ErrNoCert" "t0 = []" by (simp_all add: addCerts_no_cert)
    have t: "t = ?calls" using Certs(5) e lc by simp
    have err: "?err = ErrNoCert"
      using loadInputs_error [of L f cf kf mf] unfolding Certs(1) by simp
    have g: "sign L rnd cf kf mf outF cert ints g = (r, g, t)"
      if "ReadFile L g cf = ReadFile L f cf \<and> ReadFile L g mf = ReadFile L f mf \<and>
          ReadFile L g kf = ReadFile L f kf" for g
      unfolding sign_stages li [OF that] Certs(1) using Certs(3,5) e si nc
      by (simp add: addCerts_no_cert)
    show ?thesis
    proof (intro conjI allI impI)
      show "prefix t ?calls" unfolding t by (rule prefix_order.order_refl)
      show "f' = f" by (fact Certs(4))
      show "r = Inl ?err" unfolding err Certs(3) e by (rule refl)
      show "r = Inl ErrNoCert" using Certs(3) e by simp
      show "t = ?calls" by (fact t)
      show "sign L rnd cf kf mf outF cert ints g = (r, g, t)"
        if "ReadFile L g cf = ReadFile L f cf \<and> ReadFile L g mf = ReadFile L f mf \<and>
            ReadFile L g kf = ReadFile L f kf" for g
        using that by (rule g)
    qed
  next
    case (Signing c m k s msg)
    from Signing(2) si nc have False by (simp add: addCerts_no_cert)
    then show ?thesis ..
  next
    case (Save c m k s env msg)
    from Save(2) si nc have False by (simp add: addCerts_no_cert)
    then show ?thesis ..
  next
    case (Done c m k s env)
    from Done(2) si nc have False by (simp add: addCerts_no_cert)
    then show ?thesis ..
  qed
qed

theorem sign_no_cert_before_read_witness:
  "supplied (Some ''nowhere.der'') \<and> \<not> supplied (Some [])
   \<and> files ''nowhere.der'' = None
   \<and> sign memLib 0 ''corim.cbor'' ''key.jwk'' ''meta.json'' None (Some []) (Some ''nowhere.der'')
       files =
     (Inl ErrNoCert, files,
      [ReadFileCall ''corim.cbor'', FromCBORCall, CorimValidCall,
       ReadFileCall ''meta.json'', FromJSONCall, MetaValidCall,
       ReadFileCall ''key.jwk'', NewSignerFromJWKCall, SignedCorimLit])
   \<and> sign memLib 0 ''corim.cbor'' ''key.jwk'' ''meta.json'' None (Some []) (Some ''nowhere.der'')
       (files(''nowhere.der'' \<mapsto> [8])) =
     (Inl ErrNoCert, files(''nowhere.der'' \<mapsto> [8]),
      [ReadFileCall ''corim.cbor'', FromCBORCall, CorimValidCall,
       ReadFileCall ''meta.json'', FromJSONCall, MetaValidCall,
       ReadFileCall ''key.jwk'', NewSignerFromJWKCall, SignedCorimLit])"
proof -
  have s: "supplied (Some ''nowhere.der'')" "\<not> supplied (Some [])"
    by (simp_all add: supplied_def)
  have g: "ReadFile memLib (files(''nowhere.der'' \<mapsto> [8])) ''corim.cbor'' =
             ReadFile memLib files ''corim.cbor'' \<and>
           ReadFile memLib (files(''nowhere.der'' \<mapsto> [8])) ''meta.json'' =
             ReadFile memLib files ''meta.json'' \<and>
           ReadFile memLib (files(''nowhere.der'' \<mapsto> [8])) ''key.jwk'' =
             ReadFile memLib files ''key.jwk''"
    by (simp add: memLib_def)
  have n: "files ''nowhere.der'' = None" by (simp add: files_def)
  from sign_no_cert_before_read [OF s run_nowhere]
  have "\<forall>g. ReadFile memLib g ''corim.cbor'' = ReadFile memLib files ''corim.cbor'' \<and>
            ReadFile memLib g ''meta.json'' = ReadFile memLib files ''meta.json'' \<and>
            ReadFile memLib g ''key.jwk'' = ReadFile memLib files ''key.jwk''
          \<longrightarrow> sign memLib 0 ''corim.cbor'' ''key.jwk'' ''meta.json'' None (Some [])
                (Some ''nowhere.der'') g =
              (Inl ErrNoCert, g,
               [ReadFileCall ''corim.cbor'', FromCBORCall, CorimValidCall,
                ReadFileCall ''meta.json'', FromJSONCall, MetaValidCall,
                ReadFileCall ''key.jwk'', NewSignerFromJWKCall, SignedCorimLit])"
    by (rule conjunct2 [THEN conjunct2, THEN conjunct2, THEN conjunct2])
  from this [rule_format, OF g]
  have "sign memLib 0 ''corim.cbor'' ''key.jwk'' ''meta.json'' None (Some [])
          (Some ''nowhere.der'') (files(''nowhere.der'' \<mapsto> [8])) =
        (Inl ErrNoCert, files(''nowhere.der'' \<mapsto> [8]),
         [ReadFileCall ''corim.cbor'', FromCBORCall, CorimValidCall,
          ReadFileCall ''meta.json'', FromJSONCall, MetaValidCall,
          ReadFileCall ''key.jwk'', NewSignerFromJWKCall, SignedCorimLit])" .
  with s n run_nowhere show ?thesis by simp
qed

text \<open>
  C10 as stated fails.  With intermediate certificates and no signing certificate, but
  metadata that is not valid, the error is the one of the validation.  And when the
  intermediates argument is the name of the manifest file, that name is read, and the
  error for a file that does not exist is the one of that read.
\<close>

theorem sign_no_cert_before_read_counterexample:
  "supplied (Some ''nowhere.der'') \<and> \<not> supplied (Some [])
   \<and> fst (sign memLib 0 ''corim.cbor'' ''key.jwk'' ''bad.json'' None (Some [])
        (Some ''nowhere.der'') files) = Inl (ErrValidMeta ''no signer'')
   \<and> Error (ErrValidMeta ''no signer'') = ''error validating CoRIM Meta: no signer''
   \<and> Error (ErrValidMeta ''no signer'') \<noteq>
       ''cannot add intermediate certificates without a signing certificate''
   \<and> supplied (Some ''absent.cbor'')
   \<and> sign memLib 0 ''absent.cbor'' ''key.jwk'' ''meta.json'' None (Some [])
        (Some ''absent.cbor'') files =
       (Inl (ErrLoadCorim ''absent.cbor'' ''file does not exist''), files,
        [ReadFileCall ''absent.cbor''])"
  by (simp add: run_bad_meta run_same_name supplied_def)

subsection \<open>What a run does to the files\<close>

lemma reads_loadCalls:
  "ReadFileCall p \<in> set (take n (loadCalls cf mf kf)) \<Longrightarrow> p = cf \<or> p = mf \<or> p = kf"
  by (auto simp: loadCalls_def dest!: in_set_takeD)

lemma reads_certs:
  "ReadFileCall p \<in> set (certCalls cert @ intsCalls ints) \<Longrightarrow>
     p \<in> set (inputFiles cf kf mf cert ints)"
  by (auto simp: certCalls_def intsCalls_def inputFiles_def split: if_splits)

lemma reads_inputs:
  "ReadFileCall p \<in> set (loadCalls cf mf kf) \<Longrightarrow> p \<in> set (inputFiles cf kf mf cert ints)"
  by (auto simp: loadCalls_def inputFiles_def)

lemma run_in_place:
  "sign memLib 0 ''corim.cbor'' ''key.jwk'' ''meta.json'' (Some ''corim.cbor'') None None files =
     (Inr ''corim.cbor'', files(''corim.cbor'' \<mapsto> [6, 1, 2, 3, 4, 5]),
      [ReadFileCall ''corim.cbor'', FromCBORCall, CorimValidCall,
       ReadFileCall ''meta.json'', FromJSONCall, MetaValidCall,
       ReadFileCall ''key.jwk'', NewSignerFromJWKCall, SignedCorimLit,
       SignCall, WriteFileCall ''corim.cbor'' [6, 1, 2, 3, 4, 5]])"
  by (simp add: run_defs)

lemma run_clean:
  "sign cleanLib 0 ''./corim.cbor'' ''key.jwk'' ''meta.json'' (Some ''./out.cbor'') None None
     files =
     (Inr ''./out.cbor'', files(''out.cbor'' \<mapsto> [6, 1, 2, 3, 4, 5]),
      [ReadFileCall ''./corim.cbor'', FromCBORCall, CorimValidCall,
       ReadFileCall ''meta.json'', FromJSONCall, MetaValidCall,
       ReadFileCall ''key.jwk'', NewSignerFromJWKCall, SignedCorimLit,
       SignCall, WriteFileCall ''./out.cbor'' [6, 1, 2, 3, 4, 5]])"
  by (simp add: run_defs cleanLib_def clean_def)

lemma run_other_spelling:
  "sign cleanLib 0 ''corim.cbor'' ''key.jwk'' ''meta.json'' (Some ''./corim.cbor'') None None
     files =
     (Inr ''./corim.cbor'', files(''corim.cbor'' \<mapsto> [6, 1, 2, 3, 4, 5]),
      [ReadFileCall ''corim.cbor'', FromCBORCall, CorimValidCall,
       ReadFileCall ''meta.json'', FromJSONCall, MetaValidCall,
       ReadFileCall ''key.jwk'', NewSignerFromJWKCall, SignedCorimLit,
       SignCall, WriteFileCall ''./corim.cbor'' [6, 1, 2, 3, 4, 5]])"
  by (simp add: run_defs cleanLib_def clean_def)

text \<open>
  C9 (as amended).  The only calls of \<open>sign\<close> that touch the file system are reads under
  the names it was given as inputs and at most one write, of the envelope bytes that
  \<open>Sign\<close> returned, under the output name (the output argument, or \<open>"signed-"\<close> and the
  name of the manifest file).  When no write is made, the file system is as it was.  Two
  names can denote one file (the file system cleans names, follows links); let \<open>file\<close>
  give the file that a name denotes.  On a file system where a write under one name leaves
  what is read under every name of another file as it was, every name that does not denote
  the file of the output name reads the same after the run as before it.  So an input file
  is unchanged whenever the output name denotes another file; when the output name denotes
  an input file, under the same or another spelling, the run overwrites it.
\<close>

theorem sign_touches_output_only:
  assumes frame: "\<forall>g p b q. file q \<noteq> file p \<longrightarrow>
                    ReadFile L (fst (WriteFile L g p b)) q = ReadFile L g q"
    and run: "sign L rnd cf kf mf outF cert ints f = (r, f', t)"
  shows "(\<forall>p. ReadFileCall p \<in> set t \<longrightarrow> p \<in> set (inputFiles cf kf mf cert ints))
       \<and> (writes t = [] \<and> f' = f \<or>
          (\<exists>s k env. Sign L s k rnd = Inr env \<and>
                 writes t =
                   [(case outF of None \<Rightarrow> ''signed-'' @ cf
                     | Some q \<Rightarrow> if q = [] then ''signed-'' @ cf else q, env)] \<and>
                 f' = fst (WriteFile L f
                   (case outF of None \<Rightarrow> ''signed-'' @ cf
                    | Some q \<Rightarrow> if q = [] then ''signed-'' @ cf else q) env)))
       \<and> (\<forall>q. file q \<noteq> file (case outF of None \<Rightarrow> ''signed-'' @ cf
                             | Some q \<Rightarrow> if q = [] then ''signed-'' @ cf else q)
              \<longrightarrow> ReadFile L f' q = ReadFile L f q)"
proof -
  have name: "signedCorimFile cf outF =
      (case outF of None \<Rightarrow> ''signed-'' @ cf | Some q \<Rightarrow> if q = [] then ''signed-'' @ cf else q)"
    by (simp add: signedCorimFile_def supplied_def split: option.split)
  have reads_all: "p \<in> set (inputFiles cf kf mf cert ints)"
    if "ReadFileCall p \<in> set (loadCalls cf mf kf @ certCalls cert @ intsCalls ints @ u)"
      and "ReadFileCall p \<notin> set u" for p u
    using that reads_inputs [of p cf mf kf cert ints] reads_certs [of p cert ints cf kf mf]
    by auto
  have written: "ReadFile L g q = ReadFile L f q"
    if "WriteFile L f (signedCorimFile cf outF) env = (g, w)"
      "file q \<noteq> file (signedCorimFile cf outF)"
    for g q env w
  proof -
    have "ReadFile L (fst (WriteFile L f (signedCorimFile cf outF) env)) q = ReadFile L f q"
      using frame that(2) by blast
    with that(1) show ?thesis by simp
  qed
  show ?thesis
    using run
  proof (cases rule: sign_cases)
    case (Early e n)
    then show ?thesis
      using reads_loadCalls [of _ n cf mf kf]
      by (auto simp: writes_loadCalls inputFiles_def)
  next
    case (Certs c m k e t0)
    have "prefix t0 (certCalls cert @ intsCalls ints)" and w0: "writes t0 = []"
      using addCerts_Inl_calls [OF Certs(2)] by simp_all
    then have "set t0 \<subseteq> set (certCalls cert @ intsCalls ints)"
      by (intro set_mono_prefix)
    then have "p \<in> set (inputFiles cf kf mf cert ints)" if "ReadFileCall p \<in> set t0" for p
      using that reads_certs [of p cert ints cf kf mf] by blast
    with Certs w0 show ?thesis
      using reads_inputs [of _ cf mf kf cert ints]
      by (auto simp: writes_append)
  next
    case (Signing c m k s msg)
    then show ?thesis
      using reads_all [of _ "[SignCall]"] by (simp add: writes_append)
  next
    case (Save c m k s env msg)
    have "\<exists>s k. Sign L s k rnd = Inr env" using Save(3) by blast
    with Save show ?thesis
      using reads_all [of _ "[SignCall, WriteFileCall (signedCorimFile cf outF) env]"]
        written [OF Save(4)]
      by (simp add: writes_append name [symmetric])
  next
    case (Done c m k s env)
    have "\<exists>s k. Sign L s k rnd = Inr env" using Done(3) by blast
    with Done show ?thesis
      using reads_all [of _ "[SignCall, WriteFileCall (signedCorimFile cf outF) env]"]
        written [OF Done(4)]
      by (simp add: writes_append name [symmetric])
  qed
qed

theorem sign_touches_output_only_witness:
  "fst (snd (sign cleanLib 0 ''./corim.cbor'' ''key.jwk'' ''meta.json'' (Some ''./out.cbor'')
               None None files)) = files(''out.cbor'' \<mapsto> [6, 1, 2, 3, 4, 5])
   \<and> clean ''corim.cbor'' \<noteq> clean ''./out.cbor''
   \<and> ReadFile cleanLib (files(''out.cbor'' \<mapsto> [6, 1, 2, 3, 4, 5])) ''corim.cbor'' =
       ReadFile cleanLib files ''corim.cbor''
   \<and> ReadFile cleanLib (files(''out.cbor'' \<mapsto> [6, 1, 2, 3, 4, 5])) ''./corim.cbor'' =
       ReadFile cleanLib files ''./corim.cbor''
   \<and> ReadFile cleanLib (files(''out.cbor'' \<mapsto> [6, 1, 2, 3, 4, 5])) ''key.jwk'' =
       ReadFile cleanLib files ''key.jwk''
   \<and> ReadFile cleanLib (files(''out.cbor'' \<mapsto> [6, 1, 2, 3, 4, 5])) ''meta.json'' =
       ReadFile cleanLib files ''meta.json''"
proof -
  have frame: "\<forall>g p b q. clean q \<noteq> clean p \<longrightarrow>
      ReadFile cleanLib (fst (WriteFile cleanLib g p b)) q = ReadFile cleanLib g q"
    by (simp add: cleanLib_def)
  have c: "clean ''corim.cbor'' \<noteq> clean ''./out.cbor''"
    "clean ''./corim.cbor'' \<noteq> clean ''./out.cbor''"
    "clean ''key.jwk'' \<noteq> clean ''./out.cbor''"
    "clean ''meta.json'' \<noteq> clean ''./out.cbor''"
    by (simp_all add: clean_def)
  from sign_touches_output_only [OF frame run_clean, THEN conjunct2, THEN conjunct2]
  have "\<forall>q. clean q \<noteq> clean ''./out.cbor'' \<longrightarrow>
          ReadFile cleanLib (files(''out.cbor'' \<mapsto> [6, 1, 2, 3, 4, 5])) q =
          ReadFile cleanLib files q"
    by simp
  with c have "ReadFile cleanLib (files(''out.cbor'' \<mapsto> [6, 1, 2, 3, 4, 5])) ''corim.cbor'' =
       ReadFile cleanLib files ''corim.cbor''"
    "ReadFile cleanLib (files(''out.cbor'' \<mapsto> [6, 1, 2, 3, 4, 5])) ''./corim.cbor'' =
       ReadFile cleanLib files ''./corim.cbor''"
    "ReadFile cleanLib (files(''out.cbor'' \<mapsto> [6, 1, 2, 3, 4, 5])) ''key.jwk'' =
       ReadFile cleanLib files ''key.jwk''"
    "ReadFile cleanLib (files(''out.cbor'' \<mapsto> [6, 1, 2, 3, 4, 5])) ''meta.json'' =
       ReadFile cleanLib files ''meta.json''"
    by blast+
  with c(1) show ?thesis unfolding run_clean by simp
qed

text \<open>
  C9 as stated fails: when the output argument names the manifest file, the run succeeds
  and the manifest file holds the envelope afterwards.  The same happens when the output
  argument is another spelling of the name of the manifest file.
\<close>

theorem sign_touches_output_only_counterexample:
  "fst (sign memLib 0 ''corim.cbor'' ''key.jwk'' ''meta.json'' (Some ''corim.cbor'') None None
          files) = Inr ''corim.cbor''
   \<and> ReadFile memLib files ''corim.cbor'' = Inr [1, 2, 3]
   \<and> ReadFile memLib
        (fst (snd (sign memLib 0 ''corim.cbor'' ''key.jwk'' ''meta.json'' (Some ''corim.cbor'')
                     None None files))) ''corim.cbor'' = Inr [6, 1, 2, 3, 4, 5]
   \<and> fst (sign cleanLib 0 ''corim.cbor'' ''key.jwk'' ''meta.json'' (Some ''./corim.cbor'') None
          None files) = Inr ''./corim.cbor''
   \<and> ReadFile cleanLib files ''corim.cbor'' = Inr [1, 2, 3]
   \<and> ReadFile cleanLib
        (fst (snd (sign cleanLib 0 ''corim.cbor'' ''key.jwk'' ''meta.json''
                     (Some ''./corim.cbor'') None None files))) ''corim.cbor'' =
       Inr [6, 1, 2, 3, 4, 5]"
  unfolding run_in_place run_other_spelling
  by (simp add: memLib_def cleanLib_def clean_def files_def)

end
